theory Spec2Isabelle
  imports Main
begin

section \<open>Data model of the single processing store\<close>

text \<open>
  The store of \<^verbatim>\<open>jsapp/js/components/processing/singleProcessingStore.ts\<close> is a
  Reflux store: one mutable object whose methods run to completion, one at a time, in
  reaction to router events, action callbacks and calls from the rendering layer.
  The model is a record of the object's fields and one function per method, each taking
  the store and returning the updated store. Calls to collaborators (actions, alertify,
  \<^verbatim>\<open>this.trigger\<close>) are appended, in call order, to the field \<open>effects\<close>.
\<close>

type_synonym LanguageCode = string

text \<open>JavaScript truthiness of a value of type \<^verbatim>\<open>string | undefined\<close>.\<close>

definition truthy :: "string option \<Rightarrow> bool" where
  "truthy v = (case v of None \<Rightarrow> False | Some x \<Rightarrow> x \<noteq> [])"

text \<open>The property key JavaScript derives from a value used as an object index.\<close>

definition propertyKey :: "string option \<Rightarrow> string" where
  "propertyKey v = (case v of None \<Rightarrow> ''undefined'' | Some x \<Rightarrow> x)"

datatype ProcessingTabName = TabTranscript | TabTranslations | TabAnalysis

text \<open>The string enum \<^verbatim>\<open>StaticDisplays\<close>; a display is the enum's string or a language code.\<close>

datatype StaticDisplays = Data | Audio | Transcript

fun staticDisplay :: "StaticDisplays \<Rightarrow> string" where
  "staticDisplay Data = ''Data''"
| "staticDisplay Audio = ''Audio''"
| "staticDisplay Transcript = ''Transcript''"

type_synonym DisplaysList = "string list"

text \<open>\<^verbatim>\<open>SidebarDisplays\<close>: an object indexed by tab name.\<close>

type_synonym SidebarDisplays = "ProcessingTabName \<Rightarrow> DisplaysList"

fun DefaultDisplays :: "ProcessingTabName \<Rightarrow> DisplaysList" where
  "DefaultDisplays TabTranscript = [staticDisplay Audio, staticDisplay Data]"
| "DefaultDisplays TabTranslations =
     [staticDisplay Audio, staticDisplay Data, staticDisplay Transcript]"
| "DefaultDisplays TabAnalysis =
     [staticDisplay Audio, staticDisplay Data, staticDisplay Transcript]"

record Transx =
  tx_value :: string
  tx_languageCode :: LanguageCode
  tx_dateCreated :: string
  tx_dateModified :: string

text \<open>\<^verbatim>\<open>regionCode?: LanguageCode | null\<close> has three kinds of value.\<close>

datatype RegionCode = RegionUndefined | RegionNull | Region LanguageCode

record TransxDraft =
  draft_value :: "string option"
  draft_languageCode :: "LanguageCode option"
  draft_regionCode :: RegionCode

record EditIdEntry =
  editId :: "string option"
  hasResponse :: bool

type_synonym SubmissionsEditIds = "string \<rightharpoonup> EditIdEntry list"

text \<open>
  Modelled from the spec: the declaration of \<^verbatim>\<open>SubmissionResponse\<close>
  (\<^verbatim>\<open>js/dataInterface\<close>) is not among the sources. A submission record is a JSON
  object; the store reads its keys and the two identifier properties only, so it is a
  list of key and value pairs in enumeration order.
\<close>

type_synonym SubmissionResponse = "(string \<times> string) list"

text \<open>
  Modelled from the spec: the declaration of \<^verbatim>\<open>ProcessingDataResponse\<close>
  (\<^verbatim>\<open>processingActions\<close>) is not among the sources. The fields are those the
  store's code reads: an object keyed by question path, each entry with an optional
  transcript, an optional object of translations keyed by language code (in the order
  \<^verbatim>\<open>Object.keys\<close> lists them), and the optional results of the automatic services, of
  which the store reads the language code and the value. The transcript and the
  translations are read as \<open>Transx\<close> objects.
\<close>

record GoogleTransxResponse =
  g_languageCode :: string
  g_value :: string

record QuestionProcessingData =
  qd_transcript :: "Transx option"
  qd_translation :: "(LanguageCode \<times> Transx) list option"
  qd_googlets :: "GoogleTransxResponse option"
  qd_googletx :: "GoogleTransxResponse option"

type_synonym ProcessingDataResponse = "(string \<times> QuestionProcessingData) list"

record AutoTranscriptionEvent =
  ev_response :: ProcessingDataResponse
  ev_submissionEditId :: string

text \<open>
  Modelled from the spec: the declaration of \<^verbatim>\<open>FailResponse\<close> (\<^verbatim>\<open>js/dataInterface\<close>)
  is not among the sources: a failure object carrying status, status text, and the text
  and the parsed body of the response when available.
\<close>

record ResponseJSON =
  detail :: "string option"
  error :: "string option"

record FailResponse =
  responseJSON :: "ResponseJSON option"
  responseText :: "string option"
  status :: nat
  statusText :: string

text \<open>The argument of \<^verbatim>\<open>onAnyCallFailed\<close>: \<^verbatim>\<open>FailResponse | string\<close>.\<close>

datatype FailArg = FailObject FailResponse | FailString string

datatype ConfirmCallback = DeleteTranscriptDraftCallback | DeleteTranslationDraftCallback

text \<open>Every call the store makes to a collaborator.\<close>

datatype Effect =
    TriggerData
  | TriggerDisplays
  | RouterSubscribe
  | WhenLoaded "string option"
  | ActivateAsset "string option" bool "string list"
  | GetSubmissionByUuid "string option" "string option"
  | GetProcessingSubmissions "string option" "string list"
  | GetProcessingData "string option" "string option"
  | Abort nat
  | SetTranscript "string option" "string option" "string option" LanguageCode string
  | DeleteTranscript "string option" "string option" "string option"
  | RequestAutoTranscription "string option" "string option" "string option"
      "LanguageCode option" RegionCode
  | SetTranslation "string option" "string option" "string option" LanguageCode string
  | DeleteTranslation "string option" "string option" "string option" LanguageCode
  | RequestAutoTranslation "string option" "string option" "string option" string
  | SetTimeout AutoTranscriptionEvent nat
  | AlertifyNotify string string
  | DestroyConfirm ConfirmCallback string string

text \<open>
  The fields of the class and of \<^verbatim>\<open>this.data\<close>, side by side (\<open>data_translations\<close> is
  \<^verbatim>\<open>this.data.translations\<close>). \<open>abortFetchData\<close>
  holds the identity of the abort function handed over by the payload fetch.
\<close>

record Store =
  abortFetchData :: "nat option"
  previousPath :: "string option"
  areEditIdsLoaded :: bool
  isSubmissionLoaded :: bool
  isProcessingDataLoaded :: bool
  displays :: SidebarDisplays
  analysisTabHasUnsavedWork :: bool
  transcript :: "Transx option"
  transcriptDraft :: "TransxDraft option"
  data_translations :: "Transx list"
  translationDraft :: "TransxDraft option"
  source :: "string option"
  submissionData :: "SubmissionResponse option"
  submissionsEditIds :: "SubmissionsEditIds option"
  isPristine :: bool
  isFetchingData :: bool
  isPollingForTranscript :: bool
  effects :: "Effect list"

subsection \<open>Collaborators read synchronously\<close>

text \<open>
  The router, the asset store and the helpers of \<^verbatim>\<open>js/assetUtils\<close>,
  \<^verbatim>\<open>js/router/routerUtils\<close> and \<^verbatim>\<open>processingUtils\<close> are imported by the store and
  are not among the sources. What they answer at the moment a method runs is a parameter
  of that method, the record \<open>Env\<close>. The records they exchange with the store hold the
  fields the store reads, each possibly \<^verbatim>\<open>undefined\<close>; of an asset the store reads
  the uid and whether there is a content with a survey.
\<close>

record RouteParameters =
  uid :: "string option"
  qpath :: "string option"
  submissionEditId :: "string option"

record ProcessingPathParts =
  pp_assetUid :: "string option"
  pp_qpath :: "string option"
  pp_submissionEditId :: "string option"
  pp_tab :: "string option"

type_synonym Survey = "(string \<times> string) list list"

record AssetContent =
  survey :: "Survey option"

record AssetResponse =
  asset_uid :: string
  content :: "AssetContent option"

record Env =
  getSingleProcessingRouteParameters :: RouteParameters
  isAnySingleProcessingRoute :: "string option \<Rightarrow> string option \<Rightarrow> string option \<Rightarrow> bool"
  getProcessingPathParts :: "string \<Rightarrow> ProcessingPathParts"
  getAsset :: "string option \<Rightarrow> AssetResponse option"
  isAssetProcessingActivated :: "string option \<Rightarrow> bool"
  getAssetProcessingRows :: "string option \<Rightarrow> string list option"
  getSurveyFlatPaths :: "Survey \<Rightarrow> string \<rightharpoonup> string"
  getRowNameByQpath :: "AssetContent \<Rightarrow> string \<Rightarrow> string option"
  gettext :: "string \<Rightarrow> string"

definition currentAssetUid :: "Env \<Rightarrow> string option" where
  "currentAssetUid env = uid (getSingleProcessingRouteParameters env)"

definition currentQuestionQpath :: "Env \<Rightarrow> string option" where
  "currentQuestionQpath env = qpath (getSingleProcessingRouteParameters env)"

definition currentSubmissionEditId :: "Env \<Rightarrow> string option" where
  "currentSubmissionEditId env = submissionEditId (getSingleProcessingRouteParameters env)"

section \<open>The store's methods\<close>

definition emit :: "Effect \<Rightarrow> Store \<Rightarrow> Store" where
  "emit e s = s\<lparr>effects := effects s @ [e]\<rparr>"

definition getInitialDisplays :: SidebarDisplays where
  "getInitialDisplays = DefaultDisplays"

definition resetProcessingData :: "Store \<Rightarrow> Store" where
  "resetProcessingData s =
     s\<lparr>isProcessingDataLoaded := False,
       isPollingForTranscript := False,
       transcript := None,
       transcriptDraft := None,
       data_translations := [],
       translationDraft := None,
       source := None,
       isPristine := True\<rparr>"

definition setNotPristine :: "Store \<Rightarrow> Store" where
  "setNotPristine s =
     (if isPristine s then emit TriggerData (s\<lparr>isPristine := False\<rparr>) else s)"

definition setAnalysisTabHasUnsavedChanges :: "bool \<Rightarrow> Store \<Rightarrow> Store" where
  "setAnalysisTabHasUnsavedChanges hasUnsavedWork s =
     (let s1 = s\<lparr>analysisTabHasUnsavedWork := hasUnsavedWork\<rparr>;
          s2 = (if hasUnsavedWork then setNotPristine s1 else s1)
      in emit TriggerData s2)"

definition activateAsset :: "Env \<Rightarrow> Store \<Rightarrow> Store" where
  "activateAsset env s = emit (ActivateAsset (currentAssetUid env) True []) s"

definition fetchSubmissionData :: "Env \<Rightarrow> Store \<Rightarrow> Store" where
  "fetchSubmissionData env s =
     (let s1 = s\<lparr>isSubmissionLoaded := False, submissionData := None\<rparr>;
          s2 = emit TriggerData s1
      in emit (GetSubmissionByUuid (currentAssetUid env) (currentSubmissionEditId env)) s2)"

definition onGetSubmissionByUuidCompleted :: "SubmissionResponse \<Rightarrow> Store \<Rightarrow> Store" where
  "onGetSubmissionByUuidCompleted response s =
     emit TriggerData (s\<lparr>isSubmissionLoaded := True, submissionData := Some response\<rparr>)"

definition onGetSubmissionByUuidFailed :: "Store \<Rightarrow> Store" where
  "onGetSubmissionByUuidFailed s = emit TriggerData (s\<lparr>isSubmissionLoaded := True\<rparr>)"

text \<open>
  The name of the row of a question path and its flat path, when both are truthy
  (\<^verbatim>\<open>rowName && flatPaths[rowName]\<close>).
\<close>

definition processingRowPath ::
  "Env \<Rightarrow> AssetContent \<Rightarrow> (string \<rightharpoonup> string) \<Rightarrow> string \<Rightarrow> string list" where
  "processingRowPath env c flatPaths q =
     (case getRowNameByQpath env c q of
        None \<Rightarrow> []
      | Some rowName \<Rightarrow>
          if rowName \<noteq> [] \<and> truthy (flatPaths rowName) then [the (flatPaths rowName)] else [])"

definition processingRowsPaths :: "Env \<Rightarrow> string list" where
  "processingRowsPaths env =
     (case getAsset env (currentAssetUid env) of
        None \<Rightarrow> []
      | Some asset \<Rightarrow>
          (case content asset of
             None \<Rightarrow> []
           | Some c \<Rightarrow>
               (case survey c of
                  None \<Rightarrow> []
                | Some sv \<Rightarrow>
                    (case getAssetProcessingRows env (currentAssetUid env) of
                       None \<Rightarrow> []
                     | Some rows \<Rightarrow>
                         concat (map (processingRowPath env c (getSurveyFlatPaths env sv)) rows)))))"

definition fetchEditIds :: "Env \<Rightarrow> Store \<Rightarrow> Store" where
  "fetchEditIds env s =
     (let s1 = s\<lparr>areEditIdsLoaded := False, submissionsEditIds := None\<rparr>;
          s2 = emit TriggerData s1
      in emit (GetProcessingSubmissions (currentAssetUid env) (processingRowsPaths env)) s2)"

text \<open>
  One \<^verbatim>\<open>push\<close> of the inner loop of \<^verbatim>\<open>onGetProcessingSubmissionsCompleted\<close>. Every
  question path of the processing rows was given an empty list before the loop, so the
  list looked up is there.
\<close>

definition pushEditId ::
  "Env \<Rightarrow> AssetContent \<Rightarrow> (string \<rightharpoonup> string) \<Rightarrow> SubmissionResponse \<Rightarrow>
   SubmissionsEditIds \<Rightarrow> string \<Rightarrow> SubmissionsEditIds" where
  "pushEditId env c flatPaths result ids q =
     (case getRowNameByQpath env c q of
        None \<Rightarrow> ids
      | Some rowName \<Rightarrow>
          if rowName = [] then ids
          else
            (let uuid = (case map_of result ''meta/rootUuid'' of
                           None \<Rightarrow> map_of result ''_uuid''
                         | Some u \<Rightarrow> Some u);
                 entry = \<lparr>editId = uuid,
                          hasResponse = (case flatPaths rowName of
                                           None \<Rightarrow> False
                                         | Some p \<Rightarrow> p \<in> set (map fst result))\<rparr>
             in (case ids q of
                   None \<Rightarrow> ids
                 | Some entries \<Rightarrow> ids(q \<mapsto> entries @ [entry]))))"

definition buildSubmissionsEditIds :: "Env \<Rightarrow> SubmissionResponse list \<Rightarrow> SubmissionsEditIds" where
  "buildSubmissionsEditIds env results =
     (case getAsset env (currentAssetUid env) of
        None \<Rightarrow> Map.empty
      | Some asset \<Rightarrow>
          (case content asset of
             None \<Rightarrow> Map.empty
           | Some c \<Rightarrow>
               (case survey c of
                  None \<Rightarrow> Map.empty
                | Some sv \<Rightarrow>
                    (case getAssetProcessingRows env (currentAssetUid env) of
                       None \<Rightarrow> Map.empty
                     | Some rows \<Rightarrow>
                         foldl (\<lambda>ids result.
                                  foldl (pushEditId env c (getSurveyFlatPaths env sv) result) ids rows)
                           (foldl (\<lambda>ids q. ids(q \<mapsto> [])) Map.empty rows)
                           results))))"

definition onGetProcessingSubmissionsCompleted ::
  "Env \<Rightarrow> SubmissionResponse list \<Rightarrow> Store \<Rightarrow> Store" where
  "onGetProcessingSubmissionsCompleted env results s =
     emit TriggerData
       (s\<lparr>areEditIdsLoaded := True,
          submissionsEditIds := Some (buildSubmissionsEditIds env results)\<rparr>)"

definition onGetProcessingSubmissionsFailed :: "Store \<Rightarrow> Store" where
  "onGetProcessingSubmissionsFailed s = emit TriggerData (s\<lparr>areEditIdsLoaded := True\<rparr>)"

definition fetchProcessingData :: "Env \<Rightarrow> Store \<Rightarrow> Store" where
  "fetchProcessingData env s =
     (let s1 = (case abortFetchData s of None \<Rightarrow> s | Some abort \<Rightarrow> emit (Abort abort) s);
          s2 = resetProcessingData s1
      in emit (GetProcessingData (currentAssetUid env) (currentSubmissionEditId env)) s2)"

definition onFetchProcessingDataStarted :: "nat \<Rightarrow> Store \<Rightarrow> Store" where
  "onFetchProcessingDataStarted abort s =
     emit TriggerData (s\<lparr>abortFetchData := Some abort, isFetchingData := True\<rparr>)"

text \<open>\<^verbatim>\<open>response[this.currentQuestionQpath]\<close>.\<close>

definition questionData :: "Env \<Rightarrow> ProcessingDataResponse \<Rightarrow> QuestionProcessingData option" where
  "questionData env response = map_of response (propertyKey (currentQuestionQpath env))"

definition transcriptResponse :: "Env \<Rightarrow> ProcessingDataResponse \<Rightarrow> Transx option" where
  "transcriptResponse env response =
     (case questionData env response of None \<Rightarrow> None | Some q \<Rightarrow> qd_transcript q)"

definition translationsResponse ::
  "Env \<Rightarrow> ProcessingDataResponse \<Rightarrow> (LanguageCode \<times> Transx) list option" where
  "translationsResponse env response =
     (case questionData env response of None \<Rightarrow> None | Some q \<Rightarrow> qd_translation q)"

text \<open>
  The translations of the payload, in the order \<^verbatim>\<open>Object.keys\<close> enumerates them. An
  entry whose \<^verbatim>\<open>languageCode\<close> is falsy is skipped (\<^verbatim>\<open>if (translation.languageCode)\<close>).
\<close>

definition translationsArray :: "(LanguageCode \<times> Transx) list \<Rightarrow> Transx list" where
  "translationsArray translationObject =
     concat (map (\<lambda>(languageCode, translation).
                    if tx_languageCode translation \<noteq> []
                    then [\<lparr>tx_value = tx_value translation,
                           tx_languageCode = tx_languageCode translation,
                           tx_dateCreated = tx_dateCreated translation,
                           tx_dateModified = tx_dateModified translation\<rparr>]
                    else [])
             translationObject)"

definition getTranslations :: "Store \<Rightarrow> Transx list" where
  "getTranslations s = data_translations s"

definition getAvailableDisplays :: "ProcessingTabName \<Rightarrow> Store \<Rightarrow> DisplaysList" where
  "getAvailableDisplays tabName s =
     [staticDisplay Audio, staticDisplay Data]
     @ (if tabName \<noteq> TabTranscript then [staticDisplay Transcript] else [])
     @ map tx_languageCode (getTranslations s)"

definition getDisplays :: "ProcessingTabName option \<Rightarrow> Store \<Rightarrow> DisplaysList" where
  "getDisplays tabName s = (case tabName of Some tab \<Rightarrow> displays s tab | None \<Rightarrow> [])"

definition setDisplays :: "ProcessingTabName \<Rightarrow> DisplaysList \<Rightarrow> Store \<Rightarrow> Store" where
  "setDisplays tabName newDisplays s =
     emit TriggerDisplays (s\<lparr>displays := (displays s)(tabName := newDisplays)\<rparr>)"

definition resetDisplays :: "ProcessingTabName \<Rightarrow> Store \<Rightarrow> Store" where
  "resetDisplays tabName s =
     emit TriggerDisplays (s\<lparr>displays := (displays s)(tabName := DefaultDisplays tabName)\<rparr>)"

text \<open>
  \<^verbatim>\<open>cleanupDisplays\<close> computes, for each tab, \<^verbatim>\<open>this.displays[tab].filter(...)\<close> and
  drops the array \<^verbatim>\<open>filter\<close> returns: nothing is assigned to \<^verbatim>\<open>this.displays\<close>.
  The callback's body is a statement block without \<^verbatim>\<open>return\<close>, so it answers
  \<^verbatim>\<open>undefined\<close> for every display. \<open>cleanupFiltered\<close> is the dropped array.
\<close>

definition cleanupFiltered :: "ProcessingTabName \<Rightarrow> Store \<Rightarrow> DisplaysList" where
  "cleanupFiltered tab s =
     (let availableDisplays = getAvailableDisplays tab s
      in filter (\<lambda>display. let included = display \<in> set availableDisplays in False)
           (displays s tab))"

definition cleanupDisplays :: "Store \<Rightarrow> Store" where
  "cleanupDisplays s =
     (let dropped = map (\<lambda>tab. cleanupFiltered tab s) [TabTranscript, TabTranslations, TabAnalysis]
      in emit TriggerDisplays s)"

definition onFetchProcessingDataCompleted :: "Env \<Rightarrow> ProcessingDataResponse \<Rightarrow> Store \<Rightarrow> Store" where
  "onFetchProcessingDataCompleted env response s =
     (let s1 = s\<lparr>transcript := None\<rparr>;
          s2 = (case transcriptResponse env response of
                  None \<Rightarrow> s1
                | Some tr \<Rightarrow>
                    if tx_value tr \<noteq> [] \<and> tx_languageCode tr \<noteq> []
                    then s1\<lparr>transcript := Some tr\<rparr> else s1);
          s3 = s2\<lparr>data_translations :=
                    (case translationsResponse env response of
                       None \<Rightarrow> []
                     | Some trs \<Rightarrow> translationsArray trs)\<rparr>;
          s4 = s3\<lparr>abortFetchData := None, isProcessingDataLoaded := True, isFetchingData := False\<rparr>
      in emit TriggerData (cleanupDisplays s4))"

text \<open>\<^verbatim>\<open>a || b\<close> with \<^verbatim>\<open>a\<close> of type \<^verbatim>\<open>string | undefined\<close> and \<^verbatim>\<open>b\<close> a string.\<close>

definition orElse :: "string option \<Rightarrow> string \<Rightarrow> string" where
  "orElse a b = (if truthy a then the a else b)"

definition failErrorText :: "Env \<Rightarrow> FailArg \<Rightarrow> string" where
  "failErrorText env response =
     (let errorText = gettext env ''Something went wrong''
      in (case response of
            FailString str \<Rightarrow> str
          | FailObject r \<Rightarrow>
              orElse (case responseJSON r of None \<Rightarrow> None | Some j \<Rightarrow> detail j)
                (orElse (case responseJSON r of None \<Rightarrow> None | Some j \<Rightarrow> error j)
                   (statusText r))))"

definition onAnyCallFailed :: "Env \<Rightarrow> FailArg \<Rightarrow> Store \<Rightarrow> Store" where
  "onAnyCallFailed env response s =
     (let s1 = emit (AlertifyNotify (failErrorText env response) ''error'') s;
          s2 = s1\<lparr>abortFetchData := None, isFetchingData := False, isPollingForTranscript := False\<rparr>
      in emit TriggerData s2)"

definition onSetTranscriptCompleted :: "Env \<Rightarrow> ProcessingDataResponse \<Rightarrow> Store \<Rightarrow> Store" where
  "onSetTranscriptCompleted env response s =
     (let s1 = s\<lparr>isFetchingData := False\<rparr>;
          s2 = (case transcriptResponse env response of
                  None \<Rightarrow> s1
                | Some tr \<Rightarrow> s1\<lparr>transcript := Some tr\<rparr>);
          s3 = s2\<lparr>transcriptDraft := None\<rparr>
      in emit TriggerData (setNotPristine s3))"

definition onDeleteTranscriptCompleted :: "Store \<Rightarrow> Store" where
  "onDeleteTranscriptCompleted s =
     emit TriggerData (setNotPristine (s\<lparr>isFetchingData := False, transcript := None\<rparr>))"

definition googlets :: "Env \<Rightarrow> AutoTranscriptionEvent \<Rightarrow> GoogleTransxResponse option" where
  "googlets env event =
     (case questionData env (ev_response event) of
        None \<Rightarrow> None
      | Some q \<Rightarrow> qd_googlets q)"

text \<open>
  \<^verbatim>\<open>===\<close> between the result's language code, a string, and the draft's
  \<^verbatim>\<open>languageCode\<close> or \<^verbatim>\<open>regionCode\<close>.
\<close>

definition matchesDraft :: "GoogleTransxResponse \<Rightarrow> TransxDraft \<Rightarrow> bool" where
  "matchesDraft g draft =
     (Some (g_languageCode g) = draft_languageCode draft
      \<or> Region (g_languageCode g) = draft_regionCode draft)"

definition isAutoTranscriptionEventApplicable ::
  "Env \<Rightarrow> AutoTranscriptionEvent \<Rightarrow> Store \<Rightarrow> bool" where
  "isAutoTranscriptionEventApplicable env event s =
     (Some (ev_submissionEditId event) = currentSubmissionEditId env
      \<and> (case googlets env event of
            None \<Rightarrow> False
          | Some googleTsResponse \<Rightarrow>
              (case transcriptDraft s of
                 None \<Rightarrow> False
               | Some draft \<Rightarrow> matchesDraft googleTsResponse draft)))"

definition onRequestAutoTranscriptionCompleted ::
  "Env \<Rightarrow> AutoTranscriptionEvent \<Rightarrow> Store \<Rightarrow> Store" where
  "onRequestAutoTranscriptionCompleted env event s =
     (if \<not> truthy (currentQuestionQpath env) \<or> \<not> isPollingForTranscript s
         \<or> transcriptDraft s = None
      then s
      else
        (let s1 = (case googlets env event of
                     None \<Rightarrow> s
                   | Some googleTsResponse \<Rightarrow>
                       if isAutoTranscriptionEventApplicable env event s
                       then s\<lparr>isPollingForTranscript := False,
                              transcriptDraft :=
                                map_option (\<lambda>d. d\<lparr>draft_value := Some (g_value googleTsResponse)\<rparr>)
                                  (transcriptDraft s)\<rparr>
                       else s)
         in emit TriggerData (setNotPristine s1)))"

definition requestAutoTranscription :: "Env \<Rightarrow> Store \<Rightarrow> Store" where
  "requestAutoTranscription env s =
     (let s1 = s\<lparr>isPollingForTranscript := True\<rparr>;
          s2 = emit (RequestAutoTranscription (currentAssetUid env) (currentQuestionQpath env)
                       (currentSubmissionEditId env)
                       (case transcriptDraft s1 of None \<Rightarrow> None | Some d \<Rightarrow> draft_languageCode d)
                       (case transcriptDraft s1 of None \<Rightarrow> RegionUndefined
                        | Some d \<Rightarrow> draft_regionCode d)) s1
      in emit TriggerData s2)"

text \<open>
  \<^verbatim>\<open>onRequestAutoTranscriptionInProgress\<close> only arms a timer of 5000 ms;
  \<open>autoTranscriptionTimerFired\<close> is the timer's callback.
\<close>

definition onRequestAutoTranscriptionInProgress :: "AutoTranscriptionEvent \<Rightarrow> Store \<Rightarrow> Store" where
  "onRequestAutoTranscriptionInProgress event s = emit (SetTimeout event 5000) s"

definition autoTranscriptionTimerFired :: "Env \<Rightarrow> AutoTranscriptionEvent \<Rightarrow> Store \<Rightarrow> Store" where
  "autoTranscriptionTimerFired env event s =
     (if isAutoTranscriptionEventApplicable env event s
      then requestAutoTranscription env (s\<lparr>isPollingForTranscript := True\<rparr>)
      else s\<lparr>isPollingForTranscript := False\<rparr>)"

definition onSetTranslationCompleted :: "Transx list \<Rightarrow> Store \<Rightarrow> Store" where
  "onSetTranslationCompleted newTranslations s =
     (let s1 = s\<lparr>isFetchingData := False,
                 data_translations := newTranslations,
                 translationDraft := None,
                 source := None\<rparr>
      in emit TriggerData (setNotPristine s1))"

definition onRequestAutoTranslationCompleted ::
  "Env \<Rightarrow> ProcessingDataResponse \<Rightarrow> Store \<Rightarrow> Store" where
  "onRequestAutoTranslationCompleted env response s =
     (let googleTxResponse =
            (case questionData env response of
               None \<Rightarrow> None
             | Some q \<Rightarrow> qd_googletx q);
          s1 = s\<lparr>isFetchingData := False\<rparr>;
          s2 = (case googleTxResponse of
                  None \<Rightarrow> s1
                | Some g \<Rightarrow>
                    (case translationDraft s1 of
                       None \<Rightarrow> s1
                     | Some draft \<Rightarrow>
                         if matchesDraft g draft
                         then s1\<lparr>translationDraft := Some (draft\<lparr>draft_value := Some (g_value g)\<rparr>)\<rparr>
                         else s1))
      in emit TriggerData (setNotPristine s2))"

subsection \<open>Calls from the rendering layer\<close>

definition getSources :: "Store \<Rightarrow> string list" where
  "getSources s =
     (case transcript s of
        None \<Rightarrow> []
      | Some tr \<Rightarrow> if tx_languageCode tr \<noteq> [] then [tx_languageCode tr] else [])
     @ map tx_languageCode
         (filter (\<lambda>translation.
                    Some (tx_languageCode translation)
                    \<noteq> (case translationDraft s of None \<Rightarrow> None | Some d \<Rightarrow> draft_languageCode d))
            (data_translations s))"

definition setSource :: "LanguageCode \<Rightarrow> Store \<Rightarrow> Store" where
  "setSource languageCode s = emit TriggerData (s\<lparr>source := Some languageCode\<rparr>)"

definition getTranscript :: "Store \<Rightarrow> Transx option" where
  "getTranscript s = transcript s"

definition setTranscript :: "Env \<Rightarrow> LanguageCode \<Rightarrow> string \<Rightarrow> Store \<Rightarrow> Store" where
  "setTranscript env languageCode v s =
     emit TriggerData
       (emit (SetTranscript (currentAssetUid env) (currentQuestionQpath env)
                (currentSubmissionEditId env) languageCode v)
          (s\<lparr>isFetchingData := True\<rparr>))"

definition deleteTranscript :: "Env \<Rightarrow> Store \<Rightarrow> Store" where
  "deleteTranscript env s =
     emit TriggerData
       (emit (DeleteTranscript (currentAssetUid env) (currentQuestionQpath env)
                (currentSubmissionEditId env))
          (s\<lparr>isFetchingData := True\<rparr>))"

definition getTranscriptDraft :: "Store \<Rightarrow> TransxDraft option" where
  "getTranscriptDraft s = transcriptDraft s"

definition setTranscriptDraft :: "TransxDraft \<Rightarrow> Store \<Rightarrow> Store" where
  "setTranscriptDraft newTranscriptDraft s =
     emit TriggerData (s\<lparr>transcriptDraft := Some newTranscriptDraft\<rparr>)"

definition deleteTranscriptDraft :: "Store \<Rightarrow> Store" where
  "deleteTranscriptDraft s = emit TriggerData (s\<lparr>transcriptDraft := None\<rparr>)"

text \<open>\<^verbatim>\<open>draft?.value\<close> and \<^verbatim>\<open>transx?.value\<close>: \<^verbatim>\<open>undefined\<close> when the object is.\<close>

definition draftValue :: "TransxDraft option \<Rightarrow> string option" where
  "draftValue draft = (case draft of None \<Rightarrow> None | Some d \<Rightarrow> draft_value d)"

definition transxValue :: "Transx option \<Rightarrow> string option" where
  "transxValue tr = (case tr of None \<Rightarrow> None | Some x \<Rightarrow> Some (tx_value x))"

definition hasUnsavedTranscriptDraftValue :: "Store \<Rightarrow> bool" where
  "hasUnsavedTranscriptDraftValue s =
     (let draft = getTranscriptDraft s
      in draftValue draft \<noteq> None \<and> draftValue draft \<noteq> transxValue (getTranscript s))"

definition safelyDeleteTranscriptDraft :: "Env \<Rightarrow> Store \<Rightarrow> Store" where
  "safelyDeleteTranscriptDraft env s =
     (if hasUnsavedTranscriptDraftValue s
      then emit (DestroyConfirm DeleteTranscriptDraftCallback
                   (gettext env ''Discard unsaved changes?'') (gettext env ''Discard'')) s
      else deleteTranscriptDraft s)"

definition getTranslation :: "LanguageCode option \<Rightarrow> Store \<Rightarrow> Transx option" where
  "getTranslation languageCode s =
     find (\<lambda>translation. Some (tx_languageCode translation) = languageCode) (data_translations s)"

definition setTranslation :: "Env \<Rightarrow> LanguageCode \<Rightarrow> string \<Rightarrow> Store \<Rightarrow> Store" where
  "setTranslation env languageCode v s =
     emit TriggerData
       (emit (SetTranslation (currentAssetUid env) (currentQuestionQpath env)
                (currentSubmissionEditId env) languageCode v)
          (s\<lparr>isFetchingData := True\<rparr>))"

definition deleteTranslation :: "Env \<Rightarrow> LanguageCode \<Rightarrow> Store \<Rightarrow> Store" where
  "deleteTranslation env languageCode s =
     emit TriggerData
       (emit (DeleteTranslation (currentAssetUid env) (currentQuestionQpath env)
                (currentSubmissionEditId env) languageCode)
          (s\<lparr>isFetchingData := True\<rparr>))"

definition requestAutoTranslation :: "Env \<Rightarrow> string \<Rightarrow> Store \<Rightarrow> Store" where
  "requestAutoTranslation env languageCode s =
     emit TriggerData
       (emit (RequestAutoTranslation (currentAssetUid env) (currentQuestionQpath env)
                (currentSubmissionEditId env) languageCode)
          (s\<lparr>isFetchingData := True\<rparr>))"

definition getTranslationDraft :: "Store \<Rightarrow> TransxDraft option" where
  "getTranslationDraft s = translationDraft s"

definition setTranslationDraft :: "TransxDraft \<Rightarrow> Store \<Rightarrow> Store" where
  "setTranslationDraft newTranslationDraft s =
     emit TriggerData (s\<lparr>translationDraft := Some newTranslationDraft\<rparr>)"

definition deleteTranslationDraft :: "Store \<Rightarrow> Store" where
  "deleteTranslationDraft s =
     emit TriggerData (s\<lparr>translationDraft := None, source := None\<rparr>)"

definition hasUnsavedTranslationDraftValue :: "Store \<Rightarrow> bool" where
  "hasUnsavedTranslationDraftValue s =
     (let draft = getTranslationDraft s
      in draftValue draft \<noteq> None
         \<and> draftValue draft
           \<noteq> transxValue
               (getTranslation (case draft of None \<Rightarrow> None | Some d \<Rightarrow> draft_languageCode d) s))"

definition safelyDeleteTranslationDraft :: "Env \<Rightarrow> Store \<Rightarrow> Store" where
  "safelyDeleteTranslationDraft env s =
     (if hasUnsavedTranslationDraftValue s
      then emit (DestroyConfirm DeleteTranslationDraftCallback
                   (gettext env ''Discard unsaved changes?'') (gettext env ''Discard'')) s
      else deleteTranslationDraft s)"

definition hasAnyUnsavedWork :: "Store \<Rightarrow> bool" where
  "hasAnyUnsavedWork s =
     (hasUnsavedTranscriptDraftValue s \<or> hasUnsavedTranslationDraftValue s
      \<or> analysisTabHasUnsavedWork s)"

definition isReady :: "Env \<Rightarrow> Store \<Rightarrow> bool" where
  "isReady env s =
     (isAssetProcessingActivated env (currentAssetUid env) \<and> areEditIdsLoaded s
      \<and> isSubmissionLoaded s \<and> isProcessingDataLoaded s)"

subsection \<open>Start-up and navigation\<close>

definition fetchAllInitialDataForAsset :: "Env \<Rightarrow> Store \<Rightarrow> Store" where
  "fetchAllInitialDataForAsset env s =
     (if getAsset env (currentAssetUid env) = None then s
      else if \<not> isAssetProcessingActivated env (currentAssetUid env) then activateAsset env s
      else fetchProcessingData env (fetchEditIds env (fetchSubmissionData env s)))"

definition onActivateAssetCompleted :: "Env \<Rightarrow> Store \<Rightarrow> Store" where
  "onActivateAssetCompleted env s = fetchAllInitialDataForAsset env s"

definition onProcessingRoute :: "Env \<Rightarrow> bool" where
  "onProcessingRoute env =
     isAnySingleProcessingRoute env (currentAssetUid env) (currentQuestionQpath env)
       (currentSubmissionEditId env)"

definition onAssetLoad :: "Env \<Rightarrow> AssetResponse \<Rightarrow> Store \<Rightarrow> Store" where
  "onAssetLoad env asset s =
     (if onProcessingRoute env \<and> currentAssetUid env = Some (asset_uid asset)
      then (if \<not> isAssetProcessingActivated env (currentAssetUid env)
            then activateAsset env s
            else fetchAllInitialDataForAsset env s)
      else s)"

definition startupStore :: "Env \<Rightarrow> Store \<Rightarrow> Store" where
  "startupStore env s =
     (if onProcessingRoute env
      then (if getAsset env (currentAssetUid env) \<noteq> None
            then fetchAllInitialDataForAsset env s
            else emit (WhenLoaded (currentAssetUid env)) s)
      else s)"

definition onRouteChange :: "Env \<Rightarrow> string \<Rightarrow> Store \<Rightarrow> Store" where
  "onRouteChange env pathname s =
     (if previousPath s = Some pathname then s
      else
        (let previousPathParts =
               (if truthy (previousPath s)
                then Some (getProcessingPathParts env (the (previousPath s))) else None);
             newPathParts = getProcessingPathParts env pathname;
             s1 = (case previousPathParts of
                     None \<Rightarrow> s
                   | Some prev \<Rightarrow>
                       if pp_tab prev = Some ''analysis''
                       then setAnalysisTabHasUnsavedChanges False s else s);
             s2 = (case previousPathParts of
                     None \<Rightarrow> s1
                   | Some prev \<Rightarrow>
                       if pp_assetUid prev = pp_assetUid newPathParts
                          \<and> pp_qpath prev = pp_qpath newPathParts
                          \<and> pp_submissionEditId prev = pp_submissionEditId newPathParts
                          \<and> pp_tab prev \<noteq> pp_tab newPathParts
                       then s1\<lparr>transcriptDraft := None, translationDraft := None, source := None\<rparr>
                       else s1);
             s3 = (case previousPathParts of
                     None \<Rightarrow> s2
                   | Some prev \<Rightarrow>
                       if pp_assetUid prev = pp_assetUid newPathParts
                          \<and> (pp_qpath prev \<noteq> pp_qpath newPathParts
                             \<or> pp_submissionEditId prev \<noteq> pp_submissionEditId newPathParts)
                       then fetchSubmissionData env (fetchProcessingData env s2)
                       else s2);
             s4 = (if previousPathParts = None \<and> onProcessingRoute env
                   then (fetchAllInitialDataForAsset env s3)\<lparr>displays := getInitialDisplays\<rparr>
                   else s3)
         in s4\<lparr>previousPath := Some pathname\<rparr>))"

text \<open>The field initialisers of the class, and \<^verbatim>\<open>init\<close>, which runs once at module load.\<close>

definition newStore :: Store where
  "newStore =
     \<lparr>abortFetchData = None,
      previousPath = None,
      areEditIdsLoaded = False,
      isSubmissionLoaded = False,
      isProcessingDataLoaded = False,
      displays = getInitialDisplays,
      analysisTabHasUnsavedWork = False,
      transcript = None,
      transcriptDraft = None,
      data_translations = [],
      translationDraft = None,
      source = None,
      submissionData = None,
      submissionsEditIds = None,
      isPristine = True,
      isFetchingData = False,
      isPollingForTranscript = False,
      effects = []\<rparr>"

definition init :: "Env \<Rightarrow> Store" where
  "init env = startupStore env (emit RouterSubscribe (resetProcessingData newStore))"

section \<open>Events and runs\<close>

text \<open>
  What \<^verbatim>\<open>init\<close> wires up: the router subscription, the listeners of the actions'
  \<^verbatim>\<open>completed\<close>, \<^verbatim>\<open>failed\<close>, \<^verbatim>\<open>started\<close> and \<^verbatim>\<open>in_progress\<close> children, the asset
  store's callback, the timer's and the confirmation prompt's callbacks, and the public
  methods that change the store.
\<close>

datatype FailingAction =
    GetProcessingDataAction
  | SetTranscriptAction
  | DeleteTranscriptAction
  | RequestAutoTranscriptionAction
  | SetTranslationAction
  | DeleteTranslationAction
  | RequestAutoTranslationAction

datatype ActionEvent =
    GetSubmissionByUuidCompleted SubmissionResponse
  | GetSubmissionByUuidFailed
  | GetProcessingSubmissionsCompleted "SubmissionResponse list"
  | GetProcessingSubmissionsFailed
  | GetProcessingDataStarted nat
  | GetProcessingDataCompleted ProcessingDataResponse
  | SetTranscriptCompleted ProcessingDataResponse
  | DeleteTranscriptCompleted
  | RequestAutoTranscriptionCompleted AutoTranscriptionEvent
  | RequestAutoTranscriptionInProgress AutoTranscriptionEvent
  | SetTranslationCompleted "Transx list"
  | DeleteTranslationCompleted ProcessingDataResponse
  | RequestAutoTranslationCompleted ProcessingDataResponse
  | ActivateAssetCompleted
  | Failed FailingAction FailArg

datatype PublicCall =
    CallSetSource LanguageCode
  | CallSetTranscript LanguageCode string
  | CallDeleteTranscript
  | CallRequestAutoTranscription
  | CallSetTranscriptDraft TransxDraft
  | CallDeleteTranscriptDraft
  | CallSafelyDeleteTranscriptDraft
  | CallSetTranslation LanguageCode string
  | CallDeleteTranslation LanguageCode
  | CallRequestAutoTranslation string
  | CallSetTranslationDraft TransxDraft
  | CallDeleteTranslationDraft
  | CallSafelyDeleteTranslationDraft
  | CallSetDisplays ProcessingTabName DisplaysList
  | CallResetDisplays ProcessingTabName
  | CallCleanupDisplays
  | CallSetAnalysisTabHasUnsavedChanges bool
  | CallSetNotPristine

datatype Event =
    RouteChange string
  | AssetLoad AssetResponse
  | Action ActionEvent
  | TimerFired AutoTranscriptionEvent
  | Confirmed ConfirmCallback
  | Call PublicCall

text \<open>
  The listeners registered in \<^verbatim>\<open>init\<close>. The \<^verbatim>\<open>failed\<close> child of each action of
  \<open>FailingAction\<close> is bound to \<^verbatim>\<open>onAnyCallFailed\<close>; the \<^verbatim>\<open>completed\<close> child of
  \<^verbatim>\<open>deleteTranslation\<close> is bound to \<^verbatim>\<open>onFetchProcessingDataCompleted\<close>.
\<close>

primrec actionStep :: "Env \<Rightarrow> ActionEvent \<Rightarrow> Store \<Rightarrow> Store" where
  "actionStep env (GetSubmissionByUuidCompleted response) s =
     onGetSubmissionByUuidCompleted response s"
| "actionStep env GetSubmissionByUuidFailed s = onGetSubmissionByUuidFailed s"
| "actionStep env (GetProcessingSubmissionsCompleted results) s =
     onGetProcessingSubmissionsCompleted env results s"
| "actionStep env GetProcessingSubmissionsFailed s = onGetProcessingSubmissionsFailed s"
| "actionStep env (GetProcessingDataStarted abort) s = onFetchProcessingDataStarted abort s"
| "actionStep env (GetProcessingDataCompleted response) s =
     onFetchProcessingDataCompleted env response s"
| "actionStep env (SetTranscriptCompleted response) s = onSetTranscriptCompleted env response s"
| "actionStep env DeleteTranscriptCompleted s = onDeleteTranscriptCompleted s"
| "actionStep env (RequestAutoTranscriptionCompleted event) s =
     onRequestAutoTranscriptionCompleted env event s"
| "actionStep env (RequestAutoTranscriptionInProgress event) s =
     onRequestAutoTranscriptionInProgress event s"
| "actionStep env (SetTranslationCompleted newTranslations) s =
     onSetTranslationCompleted newTranslations s"
| "actionStep env (DeleteTranslationCompleted response) s =
     onFetchProcessingDataCompleted env response s"
| "actionStep env (RequestAutoTranslationCompleted response) s =
     onRequestAutoTranslationCompleted env response s"
| "actionStep env ActivateAssetCompleted s = onActivateAssetCompleted env s"
| "actionStep env (Failed action response) s = onAnyCallFailed env response s"

primrec callStep :: "Env \<Rightarrow> PublicCall \<Rightarrow> Store \<Rightarrow> Store" where
  "callStep env (CallSetSource languageCode) s = setSource languageCode s"
| "callStep env (CallSetTranscript languageCode v) s = setTranscript env languageCode v s"
| "callStep env CallDeleteTranscript s = deleteTranscript env s"
| "callStep env CallRequestAutoTranscription s = requestAutoTranscription env s"
| "callStep env (CallSetTranscriptDraft draft) s = setTranscriptDraft draft s"
| "callStep env CallDeleteTranscriptDraft s = deleteTranscriptDraft s"
| "callStep env CallSafelyDeleteTranscriptDraft s = safelyDeleteTranscriptDraft env s"
| "callStep env (CallSetTranslation languageCode v) s = setTranslation env languageCode v s"
| "callStep env (CallDeleteTranslation languageCode) s = deleteTranslation env languageCode s"
| "callStep env (CallRequestAutoTranslation languageCode) s =
     requestAutoTranslation env languageCode s"
| "callStep env (CallSetTranslationDraft draft) s = setTranslationDraft draft s"
| "callStep env CallDeleteTranslationDraft s = deleteTranslationDraft s"
| "callStep env CallSafelyDeleteTranslationDraft s = safelyDeleteTranslationDraft env s"
| "callStep env (CallSetDisplays tabName newDisplays) s = setDisplays tabName newDisplays s"
| "callStep env (CallResetDisplays tabName) s = resetDisplays tabName s"
| "callStep env CallCleanupDisplays s = cleanupDisplays s"
| "callStep env (CallSetAnalysisTabHasUnsavedChanges hasUnsavedWork) s =
     setAnalysisTabHasUnsavedChanges hasUnsavedWork s"
| "callStep env CallSetNotPristine s = setNotPristine s"

primrec step :: "Env \<Rightarrow> Event \<Rightarrow> Store \<Rightarrow> Store" where
  "step env (RouteChange pathname) s = onRouteChange env pathname s"
| "step env (AssetLoad asset) s = onAssetLoad env asset s"
| "step env (Action event) s = actionStep env event s"
| "step env (TimerFired event) s = autoTranscriptionTimerFired env event s"
| "step env (Confirmed callback) s =
     (case callback of
        DeleteTranscriptDraftCallback \<Rightarrow> deleteTranscriptDraft s
      | DeleteTranslationDraftCallback \<Rightarrow> deleteTranslationDraft s)"
| "step env (Call c) s = callStep env c s"

text \<open>A run: events in order, each with what the collaborators answer when it is handled.\<close>

fun run :: "(Env \<times> Event) list \<Rightarrow> Store \<Rightarrow> Store" where
  "run [] s = s"
| "run ((env, event) # rest) s = run rest (step env event s)"

text \<open>The calls made between two states of one run.\<close>

definition emitted :: "Store \<Rightarrow> Store \<Rightarrow> Effect list" where
  "emitted s s' = drop (length (effects s)) (effects s')"

definition isPayloadFetch :: "Effect \<Rightarrow> bool" where
  "isPayloadFetch eff = (case eff of GetProcessingData u e \<Rightarrow> True | _ \<Rightarrow> False)"




definition isNotification :: "Effect \<Rightarrow> bool" where
  "isNotification eff = (case eff of AlertifyNotify msg kind \<Rightarrow> True | _ \<Rightarrow> False)"

text \<open>
  Between two states of one run: the log of calls was only extended, and the pristine
  flag is not set in the later state unless it was set in the earlier one or a payload
  fetch was issued in between.
\<close>

definition pristineKept :: "Store \<Rightarrow> Store \<Rightarrow> bool" where
  "pristineKept s s' =
     (take (length (effects s)) (effects s') = effects s
      \<and> (isPristine s' \<longrightarrow> isPristine s \<or> filter isPayloadFetch (emitted s s') \<noteq> []))"

section \<open>The API failure helper\<close>

text \<open>
  \<^verbatim>\<open>handleApiFail\<close> of the fetch wrapper. The DOM parser, the browser's online flag, the
  translation function and the presence of \<^verbatim>\<open>window.Raven\<close> are parameters.
\<close>

record ApiEnv =
  errormsgInnerHTML :: "string \<Rightarrow> string option"
  onLine :: bool
  ravenPresent :: bool
  api_gettext :: "string \<Rightarrow> string"

datatype ApiEffect = NotifyError string | RavenCaptureMessage string

fun stringIncludes :: "string \<Rightarrow> string \<Rightarrow> bool" where
  "stringIncludes [] needle = (needle = [])"
| "stringIncludes (c # cs) needle =
     (take (length needle) (c # cs) = needle \<or> stringIncludes cs needle)"

text \<open>The decimal digits of a number, as a template literal prints it.\<close>

fun digits :: "nat \<Rightarrow> string" where
  "digits n =
     (if n < 10 then [''0123456789'' ! n]
      else digits (n div 10) @ [''0123456789'' ! (n mod 10)])"

declare digits.simps [simp del]

definition handleApiFail :: "ApiEnv \<Rightarrow> FailResponse \<Rightarrow> string option \<Rightarrow> ApiEffect list" where
  "handleApiFail env response toastMessage =
     (if status response = 0 \<and> statusText response = ''abort'' then []
      else
        (let message0 = responseText response;
             message1 = (case message0 of
                           None \<Rightarrow> None
                         | Some m \<Rightarrow>
                             if stringIncludes m ''</html>'' \<and> stringIncludes m ''</body>''
                             then errormsgInnerHTML env m else Some m);
             htmlMessage = message1;
             message2 =
               (if truthy toastMessage \<or> \<not> truthy message1
                then
                  (let m = orElse toastMessage (api_gettext env ''An error occurred'')
                   in if status response \<noteq> 0 \<or> statusText response \<noteq> []
                      then m @ [CHR 0x0A, CHR 0x0A] @ digits (status response) @ '' ''
                           @ statusText response
                      else if \<not> onLine env
                      then m @ [CHR 0x0A, CHR 0x0A] @ api_gettext env ''Your connection is offline''
                      else m)
                else the message1)
         in [NotifyError message2]
            @ (if ravenPresent env then [RavenCaptureMessage (orElse htmlMessage message2)]
               else [])))"

section \<open>Example inputs\<close>

text \<open>
  One asset \<open>a1\<close> with one processing-enabled question \<open>q1\<close> and two submissions
  \<open>s1\<close> and \<open>s2\<close>. \<open>exampleEnv e\<close> is what the collaborators answer while the router
  is at submission \<open>e\<close>; \<open>examplePathParts\<close> resolves the paths of the example.
\<close>

definition examplePath :: "string \<Rightarrow> string \<Rightarrow> string" where
  "examplePath e tab = ''/forms/a1/data/processing/q1/'' @ e @ ''/'' @ tab"

definition examplePathParts :: "string \<Rightarrow> ProcessingPathParts" where
  "examplePathParts p =
     (if p = examplePath ''s1'' ''transcript''
      then \<lparr>pp_assetUid = Some ''a1'', pp_qpath = Some ''q1'',
            pp_submissionEditId = Some ''s1'', pp_tab = Some ''transcript''\<rparr>
      else if p = examplePath ''s1'' ''translations''
      then \<lparr>pp_assetUid = Some ''a1'', pp_qpath = Some ''q1'',
            pp_submissionEditId = Some ''s1'', pp_tab = Some ''translations''\<rparr>
      else if p = examplePath ''s2'' ''transcript''
      then \<lparr>pp_assetUid = Some ''a1'', pp_qpath = Some ''q1'',
            pp_submissionEditId = Some ''s2'', pp_tab = Some ''transcript''\<rparr>
      else \<lparr>pp_assetUid = None, pp_qpath = None, pp_submissionEditId = None, pp_tab = None\<rparr>)"

definition exampleEnv :: "string \<Rightarrow> Env" where
  "exampleEnv e =
     \<lparr>getSingleProcessingRouteParameters =
        \<lparr>uid = Some ''a1'', qpath = Some ''q1'', submissionEditId = Some e\<rparr>,
      isAnySingleProcessingRoute = (\<lambda>u q i. u \<noteq> None \<and> q \<noteq> None \<and> i \<noteq> None),
      getProcessingPathParts = examplePathParts,
      getAsset = (\<lambda>u. if u = Some ''a1''
                       then Some \<lparr>asset_uid = ''a1'',
                                  content = Some \<lparr>survey = Some [[(''name'', ''q1'')]]\<rparr>\<rparr>
                       else None),
      isAssetProcessingActivated = (\<lambda>u. u = Some ''a1''),
      getAssetProcessingRows = (\<lambda>u. Some [''q1'']),
      getSurveyFlatPaths = (\<lambda>sv. [''q1'' \<mapsto> ''q1'']),
      getRowNameByQpath = (\<lambda>c q. if q = ''q1'' then Some ''q1'' else None),
      gettext = (\<lambda>msg. msg)\<rparr>"

definition exampleTransx :: "string \<Rightarrow> LanguageCode \<Rightarrow> Transx" where
  "exampleTransx v languageCode =
     \<lparr>tx_value = v, tx_languageCode = languageCode,
      tx_dateCreated = ''2023-01-01'', tx_dateModified = ''2023-01-02''\<rparr>"

text \<open>A payload for \<open>q1\<close> with the given transcript and translations.\<close>

definition examplePayload ::
  "Transx option \<Rightarrow> (LanguageCode \<times> Transx) list \<Rightarrow> ProcessingDataResponse" where
  "examplePayload tr trs =
     [(''q1'', \<lparr>qd_transcript = tr, qd_translation = Some trs,
               qd_googlets = None, qd_googletx = None\<rparr>)]"

text \<open>The event of a finished automatic transcription of submission \<open>e\<close> in a language.\<close>

definition exampleAutoEvent :: "string \<Rightarrow> LanguageCode \<Rightarrow> string \<Rightarrow> AutoTranscriptionEvent" where
  "exampleAutoEvent e languageCode v =
     \<lparr>ev_response =
        [(''q1'', \<lparr>qd_transcript = None, qd_translation = None,
                  qd_googlets = Some \<lparr>g_languageCode = languageCode, g_value = v\<rparr>,
                  qd_googletx = None\<rparr>)],
      ev_submissionEditId = e\<rparr>"

text \<open>A failure of a request that was aborted: status 0 and status text \<open>abort\<close>.\<close>

definition abortedResponse :: FailResponse where
  "abortedResponse =
     \<lparr>responseJSON = None, responseText = None, status = 0, statusText = ''abort''\<rparr>"

text \<open>A failure that carries no detail, no error and an empty status text.\<close>

definition bareResponse :: FailResponse where
  "bareResponse = \<lparr>responseJSON = None, responseText = None, status = 0, statusText = []\<rparr>"

text \<open>
  The view opened on submission \<open>s1\<close>, transcript tab, with the payload fetch under way
  (abort handle 7); then the same view with its three loads completed: a transcript in
  English and a translation into Polish.
\<close>

definition exampleOpened :: Store where
  "exampleOpened =
     run [(exampleEnv ''s1'', RouteChange (examplePath ''s1'' ''transcript'')),
          (exampleEnv ''s1'', Action (GetProcessingDataStarted 7))]
       (init (exampleEnv ''s1''))"

definition exampleLoaded :: Store where
  "exampleLoaded =
     run [(exampleEnv ''s1'', Action (GetSubmissionByUuidCompleted [(''_uuid'', ''s1'')])),
          (exampleEnv ''s1'',
             Action (GetProcessingSubmissionsCompleted
                       [[(''_uuid'', ''s1''), (''q1'', ''a1.mp3'')], [(''_uuid'', ''s2'')]])),
          (exampleEnv ''s1'',
             Action (GetProcessingDataCompleted
                       (examplePayload (Some (exampleTransx ''hello'' ''en''))
                          [(''pl'', exampleTransx ''czesc'' ''pl'')])))]
       exampleOpened"

text \<open>A browser that is online, without Raven, and with untranslated messages.\<close>

definition exampleApiEnv :: ApiEnv where
  "exampleApiEnv =
     \<lparr>errormsgInnerHTML = (\<lambda>html. None), onLine = True, ravenPresent = False,
      api_gettext = (\<lambda>msg. msg)\<rparr>"


section \<open>Unfolding the methods and the examples\<close>

lemmas handler_defs =
  emit_def resetProcessingData_def setNotPristine_def setAnalysisTabHasUnsavedChanges_def
  activateAsset_def fetchSubmissionData_def onGetSubmissionByUuidCompleted_def
  onGetSubmissionByUuidFailed_def fetchEditIds_def onGetProcessingSubmissionsCompleted_def
  onGetProcessingSubmissionsFailed_def fetchProcessingData_def onFetchProcessingDataStarted_def
  cleanupDisplays_def onFetchProcessingDataCompleted_def onAnyCallFailed_def
  onSetTranscriptCompleted_def onDeleteTranscriptCompleted_def
  onRequestAutoTranscriptionCompleted_def requestAutoTranscription_def
  onRequestAutoTranscriptionInProgress_def autoTranscriptionTimerFired_def
  onSetTranslationCompleted_def onRequestAutoTranslationCompleted_def
  setSource_def setTranscript_def deleteTranscript_def setTranscriptDraft_def
  deleteTranscriptDraft_def safelyDeleteTranscriptDraft_def setTranslation_def
  deleteTranslation_def requestAutoTranslation_def setTranslationDraft_def
  deleteTranslationDraft_def safelyDeleteTranslationDraft_def setDisplays_def
  resetDisplays_def fetchAllInitialDataForAsset_def onActivateAssetCompleted_def
  onAssetLoad_def startupStore_def

lemmas example_defs =
  exampleEnv_def examplePathParts_def examplePath_def exampleTransx_def examplePayload_def
  exampleAutoEvent_def currentAssetUid_def currentQuestionQpath_def currentSubmissionEditId_def
  onProcessingRoute_def newStore_def init_def questionData_def transcriptResponse_def
  translationsResponse_def propertyKey_def truthy_def processingRowsPaths_def
  processingRowPath_def getInitialDisplays_def

lemma emitted_append: "effects s' = effects s @ new \<Longrightarrow> emitted s s' = new"
  by (simp add: emitted_def)

section \<open>Navigation\<close>

text \<open>The second case of \<open>onRouteChange\<close>: another question or another submission.\<close>

lemma routeChange_case2:
  assumes "previousPath s = Some prev" "prev \<noteq> []"
    "pp_assetUid (getProcessingPathParts env prev)
       = pp_assetUid (getProcessingPathParts env pathname)"
    "pp_qpath (getProcessingPathParts env prev) \<noteq> pp_qpath (getProcessingPathParts env pathname)
     \<or> pp_submissionEditId (getProcessingPathParts env prev)
         \<noteq> pp_submissionEditId (getProcessingPathParts env pathname)"
  shows "onRouteChange env pathname s =
     (fetchSubmissionData env
        (fetchProcessingData env
           (if pp_tab (getProcessingPathParts env prev) = Some ''analysis''
            then setAnalysisTabHasUnsavedChanges False s else s)))
     \<lparr>previousPath := Some pathname\<rparr>"
proof -
  have "prev \<noteq> pathname" using assms(4) by auto
  then show ?thesis
    using assms by (auto simp: onRouteChange_def truthy_def Let_def)
qed


lemma routeChange_case2_fields:
  assumes "previousPath s = Some prev" "prev \<noteq> []"
    "pp_assetUid (getProcessingPathParts env prev)
       = pp_assetUid (getProcessingPathParts env pathname)"
    "pp_qpath (getProcessingPathParts env prev) \<noteq> pp_qpath (getProcessingPathParts env pathname)
     \<or> pp_submissionEditId (getProcessingPathParts env prev)
         \<noteq> pp_submissionEditId (getProcessingPathParts env pathname)"
  shows "transcript (onRouteChange env pathname s) = None"
    and "data_translations (onRouteChange env pathname s) = []"
    and "source (onRouteChange env pathname s) = None"
    and "isPristine (onRouteChange env pathname s)"
    and "submissionsEditIds (onRouteChange env pathname s) = submissionsEditIds s"
    and "areEditIdsLoaded (onRouteChange env pathname s) = areEditIdsLoaded s"
  by (simp_all add: routeChange_case2[OF assms] fetchSubmissionData_def fetchProcessingData_def
      resetProcessingData_def setAnalysisTabHasUnsavedChanges_def emit_def Let_def
      split: option.splits)




text \<open>Every route change the store handles leaves its path in \<open>previousPath\<close>.\<close>

lemma onRouteChange_previousPath:
  "previousPath (onRouteChange env pathname s) = Some pathname"
  by (simp add: onRouteChange_def Let_def)




text \<open>The first case of \<open>onRouteChange\<close>: another tab only.\<close>

lemma routeChange_case1:
  assumes "previousPath s = Some prev" "prev \<noteq> []"
    "pp_assetUid (getProcessingPathParts env prev)
       = pp_assetUid (getProcessingPathParts env pathname)"
    "pp_qpath (getProcessingPathParts env prev) = pp_qpath (getProcessingPathParts env pathname)"
    "pp_submissionEditId (getProcessingPathParts env prev)
       = pp_submissionEditId (getProcessingPathParts env pathname)"
    "pp_tab (getProcessingPathParts env prev) \<noteq> pp_tab (getProcessingPathParts env pathname)"
  shows "onRouteChange env pathname s =
     (if pp_tab (getProcessingPathParts env prev) = Some ''analysis''
      then setAnalysisTabHasUnsavedChanges False s else s)
     \<lparr>transcriptDraft := None, translationDraft := None, source := None,
      previousPath := Some pathname\<rparr>"
proof -
  have "prev \<noteq> pathname" using assms(6) by auto
  then show ?thesis
    using assms by (auto simp: onRouteChange_def truthy_def Let_def)
qed


lemma exampleLoaded_facts:
  "previousPath exampleLoaded = Some (examplePath ''s1'' ''transcript'')"
  "transcript exampleLoaded = Some (exampleTransx ''hello'' ''en'')"
  "data_translations exampleLoaded = [exampleTransx ''czesc'' ''pl'']"
  "isPristine exampleLoaded"
  "abortFetchData exampleLoaded = None"
  "transcriptDraft exampleLoaded = None"
  "translationDraft exampleLoaded = None"
  by (simp_all add: exampleLoaded_def exampleOpened_def handler_defs example_defs
      onRouteChange_def translationsArray_def Let_def)



section \<open>The automatic transcription result\<close>

text \<open>
  C2. A completed automatic transcription is written into the transcript draft, and the
  polling flag cleared, only if the event's submission edit id is the current one and
  the result's language code is the draft's language code or region code: whenever this
  fails, the draft and the polling flag are as before.
\<close>

theorem autoTranscription_applied_only_if_applicable:
  assumes "\<not> (Some (ev_submissionEditId event) = currentSubmissionEditId env
              \<and> (\<exists>g d. googlets env event = Some g \<and> transcriptDraft s = Some d
                    \<and> (Some (g_languageCode g) = draft_languageCode d
                       \<or> draft_regionCode d = Region (g_languageCode g))))"
  shows "transcriptDraft (onRequestAutoTranscriptionCompleted env event s) = transcriptDraft s
         \<and> isPollingForTranscript (onRequestAutoTranscriptionCompleted env event s)
           = isPollingForTranscript s"
proof -
  have "\<not> isAutoTranscriptionEventApplicable env event s"
    using assms
    by (auto simp: isAutoTranscriptionEventApplicable_def matchesDraft_def split: option.splits)
  then show ?thesis
    by (simp add: onRequestAutoTranscriptionCompleted_def setNotPristine_def emit_def
        split: option.splits)
qed

theorem autoTranscription_stale_event_witness:
  "ev_submissionEditId (exampleAutoEvent ''s1'' ''en'' ''hello'') = ''s1''
   \<and> currentSubmissionEditId (exampleEnv ''s2'') = Some ''s2''
   \<and> transcriptDraft
        (onRequestAutoTranscriptionCompleted (exampleEnv ''s2'')
           (exampleAutoEvent ''s1'' ''en'' ''hello'')
           (newStore\<lparr>isPollingForTranscript := True,
              transcriptDraft := Some \<lparr>draft_value = None, draft_languageCode = Some ''en'',
                                        draft_regionCode = RegionNull\<rparr>\<rparr>))
      = Some \<lparr>draft_value = None, draft_languageCode = Some ''en'', draft_regionCode = RegionNull\<rparr>"
  using autoTranscription_applied_only_if_applicable
    [of "exampleAutoEvent ''s1'' ''en'' ''hello''" "exampleEnv ''s2''"
        "newStore\<lparr>isPollingForTranscript := True,
              transcriptDraft := Some \<lparr>draft_value = None, draft_languageCode = Some ''en'',
                                        draft_regionCode = RegionNull\<rparr>\<rparr>"]
  by (simp add: example_defs)

text \<open>The other direction, while the store is polling and a question is open.\<close>

lemma autoTranscription_applied:
  assumes "truthy (currentQuestionQpath env)" "isPollingForTranscript s"
    "transcriptDraft s = Some d" "googlets env event = Some g"
    "Some (ev_submissionEditId event) = currentSubmissionEditId env"
    "Some (g_languageCode g) = draft_languageCode d
     \<or> draft_regionCode d = Region (g_languageCode g)"
  shows "transcriptDraft (onRequestAutoTranscriptionCompleted env event s)
           = Some (d\<lparr>draft_value := Some (g_value g)\<rparr>)
         \<and> \<not> isPollingForTranscript (onRequestAutoTranscriptionCompleted env event s)"
proof -
  have "isAutoTranscriptionEventApplicable env event s"
    using assms
    by (auto simp: isAutoTranscriptionEventApplicable_def matchesDraft_def)
  then show ?thesis
    using assms
    by (simp add: onRequestAutoTranscriptionCompleted_def setNotPristine_def emit_def Let_def)
qed

text \<open>
  The draft asks for \<open>es-MX\<close> with region code \<open>es\<close>; the result comes back as \<open>es\<close>.
\<close>

lemma autoTranscription_region_match:
  "transcriptDraft
     (onRequestAutoTranscriptionCompleted (exampleEnv ''s1'')
        (exampleAutoEvent ''s1'' ''es'' ''hola'')
        (newStore\<lparr>isPollingForTranscript := True,
           transcriptDraft := Some \<lparr>draft_value = None, draft_languageCode = Some ''es-MX'',
                                     draft_regionCode = Region ''es''\<rparr>\<rparr>))
   = Some \<lparr>draft_value = Some ''hola'', draft_languageCode = Some ''es-MX'',
           draft_regionCode = Region ''es''\<rparr>
   \<and> \<not> isPollingForTranscript
        (onRequestAutoTranscriptionCompleted (exampleEnv ''s1'')
           (exampleAutoEvent ''s1'' ''es'' ''hola'')
           (newStore\<lparr>isPollingForTranscript := True,
              transcriptDraft := Some \<lparr>draft_value = None, draft_languageCode = Some ''es-MX'',
                                        draft_regionCode = Region ''es''\<rparr>\<rparr>))"
  by (simp add: onRequestAutoTranscriptionCompleted_def isAutoTranscriptionEventApplicable_def
      googlets_def matchesDraft_def setNotPristine_def emit_def example_defs Let_def)

section \<open>The payload fetch completes\<close>

lemma translationsArray_filter:
  "translationsArray trs = map snd (filter (\<lambda>(k, t). tx_languageCode t \<noteq> []) trs)"
  by (induction trs) (auto simp: translationsArray_def)

text \<open>
  C3, as the code has it. When a payload fetch completes, the persisted transcript is the
  response's transcript for the current question if that has a non-empty value and a
  non-empty language code, and undefined otherwise; the persisted translations are the
  translation objects of the response whose own language code is non-empty, in the order
  of the keys (an object with an empty language code is skipped); the payload-loaded flag
  is set; and \<open>cleanupDisplays\<close> runs, then the data trigger.
\<close>

theorem payload_fetch_completed:
  "transcript (onFetchProcessingDataCompleted env response s) =
     (case transcriptResponse env response of
        None \<Rightarrow> None
      | Some tr \<Rightarrow> if tx_value tr \<noteq> [] \<and> tx_languageCode tr \<noteq> [] then Some tr else None)
   \<and> data_translations (onFetchProcessingDataCompleted env response s) =
     (case translationsResponse env response of
        None \<Rightarrow> []
      | Some trs \<Rightarrow> map snd (filter (\<lambda>(k, t). tx_languageCode t \<noteq> []) trs))
   \<and> isProcessingDataLoaded (onFetchProcessingDataCompleted env response s)
   \<and> emitted s (onFetchProcessingDataCompleted env response s) = [TriggerDisplays, TriggerData]
   \<and> onFetchProcessingDataCompleted env response s =
     emit TriggerData
       (cleanupDisplays
          (s\<lparr>transcript := transcript (onFetchProcessingDataCompleted env response s),
             data_translations := data_translations (onFetchProcessingDataCompleted env response s),
             abortFetchData := None,
             isProcessingDataLoaded := True,
             isFetchingData := False\<rparr>))"
proof -
  have "emitted s (onFetchProcessingDataCompleted env response s) = [TriggerDisplays, TriggerData]"
    by (rule emitted_append)
      (simp add: onFetchProcessingDataCompleted_def cleanupDisplays_def emit_def Let_def
        split: option.splits)
  then show ?thesis
    by (simp add: onFetchProcessingDataCompleted_def cleanupDisplays_def emit_def Let_def
        translationsArray_filter split: option.splits)
qed

theorem payload_fetch_completed_witness:
  "transcript
     (onFetchProcessingDataCompleted (exampleEnv ''s1'')
        (examplePayload (Some (exampleTransx ''hello'' ''en''))
           [(''pl'', exampleTransx ''czesc'' ''pl''), (''fr'', exampleTransx [] [])])
        exampleOpened)
   = Some (exampleTransx ''hello'' ''en'')
   \<and> data_translations
     (onFetchProcessingDataCompleted (exampleEnv ''s1'')
        (examplePayload (Some (exampleTransx ''hello'' ''en''))
           [(''pl'', exampleTransx ''czesc'' ''pl''), (''fr'', exampleTransx [] [])])
        exampleOpened)
   = [exampleTransx ''czesc'' ''pl'']"
  using payload_fetch_completed
    [of "exampleEnv ''s1''"
        "examplePayload (Some (exampleTransx ''hello'' ''en''))
           [(''pl'', exampleTransx ''czesc'' ''pl''), (''fr'', exampleTransx [] [])]"
        exampleOpened]
  by (simp add: example_defs)

text \<open>
  The response has the key \<open>fr\<close> in its translation object, with an object whose
  language code is empty: one key, no entry.
\<close>

theorem translations_entry_per_key_counterexample:
  "map_option (map fst)
     (translationsResponse (exampleEnv ''s1'') (examplePayload None [(''fr'', exampleTransx [] [])]))
   = Some [''fr'']
   \<and> data_translations
        (onFetchProcessingDataCompleted (exampleEnv ''s1'')
           (examplePayload None [(''fr'', exampleTransx [] [])]) exampleOpened)
      = []"
  by (simp add: onFetchProcessingDataCompleted_def cleanupDisplays_def emit_def Let_def
      translationsArray_def example_defs)

section \<open>Display preferences\<close>

text \<open>\<open>cleanupDisplays\<close> changes no display of any tab.\<close>

lemma cleanupDisplays_displays: "displays (cleanupDisplays s) = displays s"
  by (simp add: cleanupDisplays_def emit_def)

text \<open>
  C4 says that after \<open>cleanupDisplays\<close> every active display of a tab is an available
  one. The method leaves the displays as they are: with the translation into Polish
  shown in the translations tab and no translation left in the store, \<open>pl\<close> is still
  shown after the cleanup, and it is not among the available displays.
\<close>

theorem cleanupDisplays_keeps_unavailable:
  "displays
     (cleanupDisplays
        (setDisplays TabTranslations [''Audio'', ''pl''] newStore)) TabTranslations
   = [''Audio'', ''pl'']
   \<and> ''pl'' \<notin> set (getAvailableDisplays TabTranslations
        (cleanupDisplays (setDisplays TabTranslations [''Audio'', ''pl''] newStore)))"
  by (simp add: cleanupDisplays_def setDisplays_def emit_def newStore_def
      getAvailableDisplays_def getTranslations_def)

text \<open>
  The same through the store's events: the user shows \<open>pl\<close>, then deletes that
  translation; the response of the deletion is handled by
  \<open>onFetchProcessingDataCompleted\<close>, which runs the cleanup.
\<close>

lemma deleted_translation_stays_displayed:
  "displays
     (run [(exampleEnv ''s1'', Call (CallSetDisplays TabTranslations [''Audio'', ''pl''])),
           (exampleEnv ''s1'',
              Action (DeleteTranslationCompleted
                        (examplePayload (Some (exampleTransx ''hello'' ''en'')) [])))]
        exampleLoaded) TabTranslations
   = [''Audio'', ''pl'']
   \<and> data_translations
     (run [(exampleEnv ''s1'', Call (CallSetDisplays TabTranslations [''Audio'', ''pl''])),
           (exampleEnv ''s1'',
              Action (DeleteTranslationCompleted
                        (examplePayload (Some (exampleTransx ''hello'' ''en'')) [])))]
        exampleLoaded) = []"
  by (simp add: onFetchProcessingDataCompleted_def cleanupDisplays_def setDisplays_def emit_def
      translationsArray_def example_defs Let_def)

section \<open>Unsaved drafts\<close>

lemma hasUnsavedTranscript_iff:
  "hasUnsavedTranscriptDraftValue s =
     (\<exists>d v. transcriptDraft s = Some d \<and> draft_value d = Some v
        \<and> Some v \<noteq> map_option tx_value (transcript s))"
  by (auto simp: hasUnsavedTranscriptDraftValue_def getTranscriptDraft_def getTranscript_def
      draftValue_def transxValue_def split: option.splits)

lemma find_distinct_value:
  "distinct (map tx_languageCode ts) \<Longrightarrow>
   (map_option tx_value (find (\<lambda>t. Some (tx_languageCode t) = lc) ts) = Some v)
   = (\<exists>t \<in> set ts. Some (tx_languageCode t) = lc \<and> tx_value t = v)"
  by (induction ts) (auto simp: image_iff)

lemma hasUnsavedTranslation_iff:
  assumes "distinct (map tx_languageCode (data_translations s))"
  shows "hasUnsavedTranslationDraftValue s =
     (\<exists>d v. translationDraft s = Some d \<and> draft_value d = Some v
        \<and> \<not> (\<exists>t \<in> set (data_translations s).
               Some (tx_languageCode t) = draft_languageCode d \<and> tx_value t = v))"
proof (cases "translationDraft s")
  case None
  then show ?thesis
    by (simp add: hasUnsavedTranslationDraftValue_def getTranslationDraft_def draftValue_def)
next
  case (Some d)
  show ?thesis
  proof (cases "draft_value d")
    case None
    with Some show ?thesis
      by (simp add: hasUnsavedTranslationDraftValue_def getTranslationDraft_def draftValue_def)
  next
    case (Some v)
    have tv: "transxValue x = map_option tx_value x" for x
      by (cases x) (simp_all add: transxValue_def)
    let ?found = "map_option tx_value
       (find (\<lambda>t. Some (tx_languageCode t) = draft_languageCode d) (data_translations s))"
    have "hasUnsavedTranslationDraftValue s = (Some v \<noteq> ?found)"
      using \<open>translationDraft s = Some d\<close> Some
      by (simp add: hasUnsavedTranslationDraftValue_def getTranslationDraft_def
          getTranslation_def draftValue_def tv)
    also have "\<dots> = (\<not> ?found = Some v)"
      by metis
    also have "\<dots> = (\<not> (\<exists>t \<in> set (data_translations s).
                 Some (tx_languageCode t) = draft_languageCode d \<and> tx_value t = v))"
      by (simp only: find_distinct_value[OF assms])
    finally show ?thesis
      using \<open>translationDraft s = Some d\<close> Some by simp
  qed
qed

lemma hasUnsaved_after_commit_or_clear:
  "\<not> hasUnsavedTranscriptDraftValue (onSetTranscriptCompleted env response s)
   \<and> \<not> hasUnsavedTranscriptDraftValue (deleteTranscriptDraft s)
   \<and> \<not> hasUnsavedTranslationDraftValue (onSetTranslationCompleted newTranslations s)
   \<and> \<not> hasUnsavedTranslationDraftValue (deleteTranslationDraft s)"
  by (simp add: hasUnsavedTranscriptDraftValue_def hasUnsavedTranslationDraftValue_def
      getTranscriptDraft_def getTranslationDraft_def draftValue_def
      onSetTranscriptCompleted_def deleteTranscriptDraft_def onSetTranslationCompleted_def
      deleteTranslationDraft_def emit_def setNotPristine_def Let_def split: option.splits)

text \<open>
  C6, as the code has it. \<open>hasUnsavedTranscriptDraftValue\<close> holds exactly when there is
  a transcript draft with a defined value other than the value of the persisted
  transcript (a missing transcript has no value). \<open>hasUnsavedTranslationDraftValue\<close>
  holds exactly when there is a translation draft with a defined value other than the
  value of the persisted translation \<open>getTranslation\<close> finds for the draft's language
  code; when the persisted translations have one entry per language code, that is: no
  persisted translation of the draft's language code has the draft's value. Both are
  false after the commit of a value (\<open>onSetTranscriptCompleted\<close>, respectively
  \<open>onSetTranslationCompleted\<close>) and after the draft is deleted.
\<close>

theorem hasUnsavedDraftValue_spec:
  "hasUnsavedTranscriptDraftValue s =
     (\<exists>d v. transcriptDraft s = Some d \<and> draft_value d = Some v
        \<and> Some v \<noteq> map_option tx_value (transcript s))
   \<and> hasUnsavedTranslationDraftValue s =
     (\<exists>d v. translationDraft s = Some d \<and> draft_value d = Some v
        \<and> Some v \<noteq> map_option tx_value (getTranslation (draft_languageCode d) s))
   \<and> (distinct (map tx_languageCode (data_translations s)) \<longrightarrow>
        hasUnsavedTranslationDraftValue s =
          (\<exists>d v. translationDraft s = Some d \<and> draft_value d = Some v
             \<and> \<not> (\<exists>t \<in> set (data_translations s).
                    Some (tx_languageCode t) = draft_languageCode d \<and> tx_value t = v)))
   \<and> \<not> hasUnsavedTranscriptDraftValue (onSetTranscriptCompleted env response s)
   \<and> \<not> hasUnsavedTranscriptDraftValue (deleteTranscriptDraft s)
   \<and> \<not> hasUnsavedTranslationDraftValue (onSetTranslationCompleted newTranslations s)
   \<and> \<not> hasUnsavedTranslationDraftValue (deleteTranslationDraft s)"
proof -
  have "hasUnsavedTranslationDraftValue s =
     (\<exists>d v. translationDraft s = Some d \<and> draft_value d = Some v
        \<and> Some v \<noteq> map_option tx_value (getTranslation (draft_languageCode d) s))"
    by (auto simp: hasUnsavedTranslationDraftValue_def getTranslationDraft_def
        draftValue_def transxValue_def Let_def split: option.splits)
  then show ?thesis
    using hasUnsavedTranscript_iff[of s] hasUnsavedTranslation_iff[of s]
      hasUnsaved_after_commit_or_clear[of env response s newTranslations]
    by blast
qed

theorem hasUnsavedDraftValue_witness:
  "distinct (map tx_languageCode (data_translations exampleLoaded))
   \<and> hasUnsavedTranscriptDraftValue
       (setTranscriptDraft \<lparr>draft_value = Some ''hi'', draft_languageCode = Some ''en'',
                            draft_regionCode = RegionUndefined\<rparr> exampleLoaded)
   \<and> \<not> hasUnsavedTranslationDraftValue
       (setTranslationDraft \<lparr>draft_value = Some ''czesc'', draft_languageCode = Some ''pl'',
                             draft_regionCode = RegionUndefined\<rparr> exampleLoaded)
   \<and> \<not> hasUnsavedTranscriptDraftValue
       (onSetTranscriptCompleted (exampleEnv ''s1'')
          (examplePayload (Some (exampleTransx ''hi'' ''en'')) [])
          (setTranscriptDraft \<lparr>draft_value = Some ''hi'', draft_languageCode = Some ''en'',
                               draft_regionCode = RegionUndefined\<rparr> exampleLoaded))"
  using
    hasUnsavedDraftValue_spec
      [of "setTranscriptDraft \<lparr>draft_value = Some ''hi'', draft_languageCode = Some ''en'',
                            draft_regionCode = RegionUndefined\<rparr> exampleLoaded"
          "exampleEnv ''s1''" "examplePayload (Some (exampleTransx ''hi'' ''en'')) []" "[]"]
    hasUnsavedDraftValue_spec
      [of "setTranslationDraft \<lparr>draft_value = Some ''czesc'', draft_languageCode = Some ''pl'',
                             draft_regionCode = RegionUndefined\<rparr> exampleLoaded"
          "exampleEnv ''s1''" "[]" "[]"]
  by (simp add: exampleLoaded_facts setTranscriptDraft_def setTranslationDraft_def emit_def
      exampleTransx_def getTranslation_def)

text \<open>
  The commit of a deletion keeps the draft. A transcript draft equal to the persisted
  transcript is not unsaved; once \<open>deleteTranscript\<close> completes the persisted transcript
  is gone and the same draft counts as unsaved. The same for a translation draft when
  \<open>deleteTranslation\<close> completes with a payload without that translation.
\<close>

theorem hasUnsaved_after_deletion_counterexample:
  "\<not> hasUnsavedTranscriptDraftValue
       (setTranscriptDraft \<lparr>draft_value = Some ''hello'', draft_languageCode = Some ''en'',
                            draft_regionCode = RegionUndefined\<rparr> exampleLoaded)
   \<and> hasUnsavedTranscriptDraftValue
       (step (exampleEnv ''s1'') (Action DeleteTranscriptCompleted)
          (setTranscriptDraft \<lparr>draft_value = Some ''hello'', draft_languageCode = Some ''en'',
                               draft_regionCode = RegionUndefined\<rparr> exampleLoaded))
   \<and> \<not> hasUnsavedTranslationDraftValue
       (setTranslationDraft \<lparr>draft_value = Some ''czesc'', draft_languageCode = Some ''pl'',
                             draft_regionCode = RegionUndefined\<rparr> exampleLoaded)
   \<and> hasUnsavedTranslationDraftValue
       (step (exampleEnv ''s1'')
          (Action (DeleteTranslationCompleted
                     (examplePayload (Some (exampleTransx ''hello'' ''en'')) [])))
          (setTranslationDraft \<lparr>draft_value = Some ''czesc'', draft_languageCode = Some ''pl'',
                                draft_regionCode = RegionUndefined\<rparr> exampleLoaded))"
proof -
  have unsaved:
    "hasUnsavedTranscriptDraftValue s =
       (draftValue (transcriptDraft s) \<noteq> None
        \<and> draftValue (transcriptDraft s) \<noteq> transxValue (transcript s))"
    "hasUnsavedTranslationDraftValue s =
       (draftValue (translationDraft s) \<noteq> None
        \<and> draftValue (translationDraft s)
          \<noteq> transxValue
              (find (\<lambda>t. Some (tx_languageCode t)
                          = (case translationDraft s of None \<Rightarrow> None
                             | Some d \<Rightarrow> draft_languageCode d))
                 (data_translations s)))" for s
    by (simp_all add: hasUnsavedTranscriptDraftValue_def hasUnsavedTranslationDraftValue_def
        getTranscriptDraft_def getTranslationDraft_def getTranscript_def getTranslation_def
        Let_def)
  have deleted:
    "transcriptDraft (onDeleteTranscriptCompleted s) = transcriptDraft s"
    "transcript (onDeleteTranscriptCompleted s) = None" for s
    by (simp_all add: onDeleteTranscriptCompleted_def setNotPristine_def emit_def)
  have refetched:
    "translationDraft
       (onFetchProcessingDataCompleted (exampleEnv ''s1'')
          (examplePayload (Some (exampleTransx ''hello'' ''en'')) []) s) = translationDraft s"
    "data_translations
       (onFetchProcessingDataCompleted (exampleEnv ''s1'')
          (examplePayload (Some (exampleTransx ''hello'' ''en'')) []) s) = []" for s
    by (simp_all add: onFetchProcessingDataCompleted_def cleanupDisplays_def emit_def
        translationsArray_def example_defs Let_def)
  have fields: "tx_value (exampleTransx v l) = v" "tx_languageCode (exampleTransx v l) = l"
    for v l
    by (simp_all add: exampleTransx_def)
  show ?thesis
    by (simp add: unsaved deleted refetched draftValue_def transxValue_def
        setTranscriptDraft_def setTranslationDraft_def emit_def exampleLoaded_facts fields)
qed

section \<open>Readiness\<close>

lemma failed_loads:
  "isSubmissionLoaded (onGetSubmissionByUuidFailed s)
   \<and> submissionData (onGetSubmissionByUuidFailed s) = submissionData s
   \<and> areEditIdsLoaded (onGetProcessingSubmissionsFailed s)
   \<and> submissionsEditIds (onGetProcessingSubmissionsFailed s) = submissionsEditIds s"
  by (simp add: onGetSubmissionByUuidFailed_def onGetProcessingSubmissionsFailed_def emit_def)

text \<open>
  C10. The handlers of a failed submission fetch and of a failed edit id index fetch set
  their loaded flag and leave the data as it was, so there are runs of the store, from
  \<open>init\<close>, after which \<open>isReady\<close> holds while the submission data and the edit id
  index are both undefined.
\<close>

theorem isReady_without_data:
  "isSubmissionLoaded (onGetSubmissionByUuidFailed s)
   \<and> submissionData (onGetSubmissionByUuidFailed s) = submissionData s
   \<and> areEditIdsLoaded (onGetProcessingSubmissionsFailed s)
   \<and> submissionsEditIds (onGetProcessingSubmissionsFailed s) = submissionsEditIds s
   \<and> (\<exists>env events.
         isReady env (run events (init env))
         \<and> submissionData (run events (init env)) = None
         \<and> submissionsEditIds (run events (init env)) = None)"
proof -
  let ?env = "exampleEnv ''s1''"
  let ?events = "[(?env, Action GetSubmissionByUuidFailed),
                  (?env, Action GetProcessingSubmissionsFailed),
                  (?env, Action (GetProcessingDataCompleted (examplePayload None [])))]"
  have "isReady ?env (run ?events (init ?env))
        \<and> submissionData (run ?events (init ?env)) = None
        \<and> submissionsEditIds (run ?events (init ?env)) = None"
    by (simp add: isReady_def handler_defs example_defs translationsArray_def)
  then show ?thesis
    using failed_loads by blast
qed

section \<open>Failures\<close>

lemma onAnyCallFailed_effects:
  "emitted s (onAnyCallFailed env response s) =
     [AlertifyNotify (failErrorText env response) ''error'', TriggerData]"
  by (rule emitted_append) (simp add: onAnyCallFailed_def emit_def)

text \<open>
  What \<open>onAnyCallFailed\<close> does to the store: the fetching and polling flags are cleared,
  the abort handle is dropped, one notification is sent, and the persisted data, the
  load flags and the drafts are as before.
\<close>

lemma onAnyCallFailed_store:
  "onAnyCallFailed env response s =
     s\<lparr>abortFetchData := None, isFetchingData := False, isPollingForTranscript := False,
       effects := effects s @ [AlertifyNotify (failErrorText env response) ''error'', TriggerData]\<rparr>"
  by (simp add: onAnyCallFailed_def emit_def)

lemma onAnyCallFailed_frame:
  "\<not> isFetchingData (onAnyCallFailed env response s)
   \<and> \<not> isPollingForTranscript (onAnyCallFailed env response s)
   \<and> transcript (onAnyCallFailed env response s) = transcript s
   \<and> data_translations (onAnyCallFailed env response s) = data_translations s
   \<and> submissionData (onAnyCallFailed env response s) = submissionData s
   \<and> submissionsEditIds (onAnyCallFailed env response s) = submissionsEditIds s"
  by (simp add: onAnyCallFailed_store)

text \<open>The message shown: the first truthy of detail, error and status text.\<close>

lemma failErrorText_detail:
  "responseJSON r = Some j \<Longrightarrow> detail j = Some d \<Longrightarrow> d \<noteq> [] \<Longrightarrow>
   failErrorText env (FailObject r) = d"
  by (simp add: failErrorText_def orElse_def truthy_def)

lemma failErrorText_statusText:
  "responseJSON r = None \<Longrightarrow> failErrorText env (FailObject r) = statusText r"
  by (simp add: failErrorText_def orElse_def truthy_def)

text \<open>The translated text \<open>Something went wrong\<close> never reaches the message.\<close>

lemma failErrorText_ignores_default:
  "failErrorText (env\<lparr>gettext := g\<rparr>) response = failErrorText env response"
  by (simp add: failErrorText_def split: FailArg.splits)

text \<open>
  C8 says that a failure with no specific detail is reported with a generic message.
  \<open>onAnyCallFailed\<close> sets the text \<open>Something went wrong\<close> and then overwrites it in
  both branches: for a failure with no JSON body and an empty status text, the
  notification carries the empty string. The flags are cleared and the persisted data
  is kept, as the claim says.
\<close>

theorem onAnyCallFailed_no_generic_message:
  "emitted s (onAnyCallFailed env (FailObject bareResponse) s) =
     [AlertifyNotify [] ''error'', TriggerData]
   \<and> \<not> isFetchingData (onAnyCallFailed env (FailObject bareResponse) s)
   \<and> \<not> isPollingForTranscript (onAnyCallFailed env (FailObject bareResponse) s)
   \<and> transcript (onAnyCallFailed env (FailObject bareResponse) s) = transcript s
   \<and> data_translations (onAnyCallFailed env (FailObject bareResponse) s) = data_translations s
   \<and> submissionData (onAnyCallFailed env (FailObject bareResponse) s) = submissionData s
   \<and> submissionsEditIds (onAnyCallFailed env (FailObject bareResponse) s) = submissionsEditIds s"
  using onAnyCallFailed_frame[of env "FailObject bareResponse" s]
  by (simp add: onAnyCallFailed_effects failErrorText_statusText bareResponse_def)

text \<open>
  C9 says that an aborted request produces no notification. \<open>handleApiFail\<close> returns
  at once for a failure with status 0 and status text \<open>abort\<close>; \<open>onAnyCallFailed\<close>,
  the listener of the payload fetch's \<^verbatim>\<open>failed\<close>, has no such test and notifies
  \<open>abort\<close> as an error.
\<close>

theorem aborted_request_is_notified:
  "handleApiFail apiEnv abortedResponse toastMessage = []
   \<and> filter isNotification (emitted s (onAnyCallFailed env (FailObject abortedResponse) s)) =
       [AlertifyNotify ''abort'' ''error'']"
  by (simp add: handleApiFail_def onAnyCallFailed_effects failErrorText_statusText
      abortedResponse_def isNotification_def)

theorem aborted_request_is_notified_witness:
  "handleApiFail exampleApiEnv abortedResponse None = []
   \<and> filter isNotification
       (emitted exampleOpened
          (onAnyCallFailed (exampleEnv ''s2'') (FailObject abortedResponse) exampleOpened)) =
       [AlertifyNotify ''abort'' ''error'']"
  using aborted_request_is_notified [of exampleApiEnv None exampleOpened "exampleEnv ''s2''"]
  by simp

text \<open>\<open>handleApiFail\<close> notifies for every failure that is not an abort.\<close>

lemma handleApiFail_notifies:
  "\<not> (status response = 0 \<and> statusText response = ''abort'') \<Longrightarrow>
   \<exists>message rest. handleApiFail apiEnv response toastMessage = NotifyError message # rest"
  by (simp add: handleApiFail_def Let_def)

lemma handleApiFail_example:
  "handleApiFail exampleApiEnv
     \<lparr>responseJSON = None, responseText = None, status = 500,
      statusText = ''Internal Server Error''\<rparr> None
   = [NotifyError (''An error occurred'' @ [CHR 0x0A, CHR 0x0A] @ ''500 Internal Server Error'')]"
  by (simp add: handleApiFail_def exampleApiEnv_def orElse_def truthy_def Let_def digits.simps)

section \<open>The pristine flag\<close>

lemma pristineKept_refl: "pristineKept s s"
  by (simp add: pristineKept_def)

lemma pristineKept_trans:
  assumes "pristineKept a b" "pristineKept b c"
  shows "pristineKept a c"
proof -
  obtain n1 where n1: "effects b = effects a @ n1"
    using assms(1) by (metis pristineKept_def append_take_drop_id)
  obtain n2 where n2: "effects c = effects b @ n2"
    using assms(2) by (metis pristineKept_def append_take_drop_id)
  have "emitted a b = n1" "emitted b c = n2" "emitted a c = n1 @ n2"
    using n1 n2 by (simp_all add: emitted_def)
  then show ?thesis
    using assms n1 n2 by (auto simp: pristineKept_def)
qed

lemma pristineKept_same:
  "effects t = effects s \<Longrightarrow> isPristine t = isPristine s \<Longrightarrow> pristineKept s t"
  by (simp add: pristineKept_def)

lemma pristineKept_emit: "pristineKept s (emit e s)"
  by (simp add: pristineKept_def emit_def)

lemma pristineKept_fetchProcessingData: "pristineKept s (fetchProcessingData env s)"
  by (simp add: pristineKept_def emitted_def fetchProcessingData_def resetProcessingData_def
      emit_def isPayloadFetch_def split: option.splits)

lemma pristineKept_fetchSubmissionData: "pristineKept s (fetchSubmissionData env s)"
  by (simp add: pristineKept_def fetchSubmissionData_def emit_def)

lemma pristineKept_fetchEditIds: "pristineKept s (fetchEditIds env s)"
  by (simp add: pristineKept_def fetchEditIds_def emit_def)

lemma pristineKept_setAnalysis:
  "pristineKept s (setAnalysisTabHasUnsavedChanges hasUnsavedWork s)"
  by (simp add: pristineKept_def emitted_def setAnalysisTabHasUnsavedChanges_def
      setNotPristine_def emit_def Let_def)

lemma pristineKept_fetchAll: "pristineKept s (fetchAllInitialDataForAsset env s)"
  unfolding fetchAllInitialDataForAsset_def activateAsset_def
  by (auto intro: pristineKept_refl pristineKept_emit
      pristineKept_trans[OF pristineKept_fetchSubmissionData
        pristineKept_trans[OF pristineKept_fetchEditIds pristineKept_fetchProcessingData]])

lemma pristineKept_onRouteChange: "pristineKept s (onRouteChange env pathname s)"
proof (cases "previousPath s = Some pathname")
  case True
  then show ?thesis by (simp add: onRouteChange_def pristineKept_refl)
next
  case False
  define parts where
    "parts = (if truthy (previousPath s)
              then Some (getProcessingPathParts env (the (previousPath s))) else None)"
  define new where "new = getProcessingPathParts env pathname"
  define s1 where
    "s1 = (case parts of None \<Rightarrow> s
           | Some prev \<Rightarrow> if pp_tab prev = Some ''analysis''
                          then setAnalysisTabHasUnsavedChanges False s else s)"
  define s2 where
    "s2 = (case parts of None \<Rightarrow> s1
           | Some prev \<Rightarrow>
               if pp_assetUid prev = pp_assetUid new \<and> pp_qpath prev = pp_qpath new
                  \<and> pp_submissionEditId prev = pp_submissionEditId new
                  \<and> pp_tab prev \<noteq> pp_tab new
               then s1\<lparr>transcriptDraft := None, translationDraft := None, source := None\<rparr>
               else s1)"
  define s3 where
    "s3 = (case parts of None \<Rightarrow> s2
           | Some prev \<Rightarrow>
               if pp_assetUid prev = pp_assetUid new
                  \<and> (pp_qpath prev \<noteq> pp_qpath new
                     \<or> pp_submissionEditId prev \<noteq> pp_submissionEditId new)
               then fetchSubmissionData env (fetchProcessingData env s2) else s2)"
  define s4 where
    "s4 = (if parts = None \<and> onProcessingRoute env
           then (fetchAllInitialDataForAsset env s3)\<lparr>displays := getInitialDisplays\<rparr>
           else s3)"
  have eq: "onRouteChange env pathname s = s4\<lparr>previousPath := Some pathname\<rparr>"
    unfolding onRouteChange_def Let_def s4_def s3_def s2_def s1_def new_def parts_def
    using False by (simp only: if_False)
  have 1: "pristineKept s s1"
    by (auto simp: s1_def intro: pristineKept_refl pristineKept_setAnalysis split: option.splits)
  have 2: "pristineKept s1 s2"
    by (auto simp: s2_def intro: pristineKept_refl pristineKept_same split: option.splits)
  have 3: "pristineKept s2 s3"
    by (auto simp: s3_def split: option.splits
        intro: pristineKept_refl
          pristineKept_trans[OF pristineKept_fetchProcessingData pristineKept_fetchSubmissionData])
  have 4: "pristineKept s3 s4"
    by (auto simp: s4_def
        intro: pristineKept_refl
          pristineKept_trans[OF pristineKept_fetchAll pristineKept_same])
  have 5: "pristineKept s4 (s4\<lparr>previousPath := Some pathname\<rparr>)"
    by (simp add: pristineKept_same)
  show ?thesis
    unfolding eq
    by (rule pristineKept_trans[OF 1 pristineKept_trans[OF 2 pristineKept_trans[OF 3
          pristineKept_trans[OF 4 5]]]])
qed

lemma pristineKept_onAssetLoad: "pristineKept s (onAssetLoad env asset s)"
  by (auto simp: onAssetLoad_def activateAsset_def
      intro: pristineKept_refl pristineKept_emit pristineKept_fetchAll)

lemma pristineKept_timer: "pristineKept s (autoTranscriptionTimerFired env event s)"
  by (simp add: pristineKept_def autoTranscriptionTimerFired_def requestAutoTranscription_def
      emit_def Let_def)

lemma pristineKept_actionStep: "pristineKept s (actionStep env event s)"
proof (cases event)
  case (GetProcessingDataCompleted response)
  then show ?thesis
    by (simp add: pristineKept_def onFetchProcessingDataCompleted_def cleanupDisplays_def
        emit_def Let_def split: option.splits)
next
  case (DeleteTranslationCompleted response)
  then show ?thesis
    by (simp add: pristineKept_def onFetchProcessingDataCompleted_def cleanupDisplays_def
        emit_def Let_def split: option.splits)
next
  case (RequestAutoTranscriptionCompleted ev)
  then show ?thesis
    by (simp add: pristineKept_def onRequestAutoTranscriptionCompleted_def setNotPristine_def
        emit_def Let_def split: option.splits)
next
  case (RequestAutoTranslationCompleted response)
  then show ?thesis
    by (simp add: pristineKept_def onRequestAutoTranslationCompleted_def setNotPristine_def
        emit_def Let_def split: option.splits)
next
  case ActivateAssetCompleted
  then show ?thesis
    by (simp add: onActivateAssetCompleted_def pristineKept_fetchAll)
qed (simp_all add: pristineKept_def onGetSubmissionByUuidCompleted_def
    onGetSubmissionByUuidFailed_def onGetProcessingSubmissionsCompleted_def
    onGetProcessingSubmissionsFailed_def onFetchProcessingDataStarted_def
    onSetTranscriptCompleted_def onDeleteTranscriptCompleted_def
    onRequestAutoTranscriptionInProgress_def onSetTranslationCompleted_def
    onAnyCallFailed_def setNotPristine_def emit_def Let_def split: option.splits)

lemma pristineKept_callStep: "pristineKept s (callStep env c s)"
  by (cases c)
    (simp_all add: pristineKept_def setSource_def setTranscript_def deleteTranscript_def
      requestAutoTranscription_def setTranscriptDraft_def deleteTranscriptDraft_def
      safelyDeleteTranscriptDraft_def setTranslation_def deleteTranslation_def
      requestAutoTranslation_def setTranslationDraft_def deleteTranslationDraft_def
      safelyDeleteTranslationDraft_def setDisplays_def resetDisplays_def cleanupDisplays_def
      setAnalysisTabHasUnsavedChanges_def setNotPristine_def emit_def Let_def)

lemma pristineKept_step: "pristineKept s (step env event s)"
proof (cases event)
  case (Confirmed callback)
  then show ?thesis
    by (cases callback)
      (simp_all add: pristineKept_def deleteTranscriptDraft_def deleteTranslationDraft_def
        emit_def)
qed (simp_all add: pristineKept_onRouteChange pristineKept_onAssetLoad pristineKept_actionStep
    pristineKept_timer pristineKept_callStep)

lemma pristineKept_run: "pristineKept s (run events s)"
proof (induction events arbitrary: s)
  case Nil
  show ?case by (simp add: pristineKept_refl)
next
  case (Cons a events)
  obtain env event where a: "a = (env, event)" by (cases a)
  show ?case
    unfolding a run.simps
    by (rule pristineKept_trans[OF pristineKept_step Cons.IH])
qed

lemma onSetTranscriptCompleted_previousPath:
  "previousPath (onSetTranscriptCompleted env response s) = previousPath s"
  by (simp add: onSetTranscriptCompleted_def setNotPristine_def emit_def Let_def
      split: option.splits)

lemma init_isPristine: "isPristine (init env)"
  by (simp add: init_def startupStore_def fetchAllInitialDataForAsset_def activateAsset_def
      fetchProcessingData_def fetchEditIds_def fetchSubmissionData_def resetProcessingData_def
      newStore_def emit_def Let_def split: option.splits)

text \<open>
  C5, as the code has it. The pristine flag is set after \<open>init\<close>. It is cleared by a
  completed \<open>setTranscript\<close>, \<open>setTranslation\<close> or \<open>deleteTranscript\<close> and by an
  unsaved change of the analysis tab. Once cleared it stays cleared through every run of
  events in which the store issues no payload fetch; a payload fetch (the view is
  entered, or the question or the submission changes) sets it again.
\<close>

theorem pristine_flag_lifecycle:
  "isPristine (init env)
   \<and> \<not> isPristine (onSetTranscriptCompleted env response s)
   \<and> \<not> isPristine (onSetTranslationCompleted newTranslations s)
   \<and> \<not> isPristine (onDeleteTranscriptCompleted s)
   \<and> \<not> isPristine (setAnalysisTabHasUnsavedChanges True s)
   \<and> isPristine (fetchProcessingData env s)
   \<and> (\<not> isPristine s \<and> filter isPayloadFetch (emitted s (run events s)) = []
        \<longrightarrow> \<not> isPristine (run events s))"
proof -
  have "\<not> isPristine (onSetTranscriptCompleted env response s)"
    "\<not> isPristine (onSetTranslationCompleted newTranslations s)"
    "\<not> isPristine (onDeleteTranscriptCompleted s)"
    "\<not> isPristine (setAnalysisTabHasUnsavedChanges True s)"
    "isPristine (fetchProcessingData env s)"
    by (simp_all add: onSetTranscriptCompleted_def onSetTranslationCompleted_def
        onDeleteTranscriptCompleted_def setAnalysisTabHasUnsavedChanges_def setNotPristine_def
        fetchProcessingData_def resetProcessingData_def emit_def Let_def split: option.splits)
  moreover have "\<not> isPristine s \<and> filter isPayloadFetch (emitted s (run events s)) = []
        \<longrightarrow> \<not> isPristine (run events s)"
    using pristineKept_run[of s events] by (auto simp: pristineKept_def)
  ultimately show ?thesis
    using init_isPristine by blast
qed

text \<open>
  After the transcript is saved the user switches tab and the submission reloads with
  a failure: no payload fetch, and the flag stays cleared.
\<close>

theorem pristine_flag_lifecycle_witness:
  "\<not> isPristine
       (onSetTranscriptCompleted (exampleEnv ''s1'')
          (examplePayload (Some (exampleTransx ''hi'' ''en'')) []) exampleLoaded)
   \<and> \<not> isPristine
       (run [(exampleEnv ''s1'', RouteChange (examplePath ''s1'' ''translations'')),
             (exampleEnv ''s1'', Action GetSubmissionByUuidFailed)]
          (onSetTranscriptCompleted (exampleEnv ''s1'')
             (examplePayload (Some (exampleTransx ''hi'' ''en'')) []) exampleLoaded))"
proof -
  define s where "s = onSetTranscriptCompleted (exampleEnv ''s1'')
             (examplePayload (Some (exampleTransx ''hi'' ''en'')) []) exampleLoaded"
  let ?events = "[(exampleEnv ''s1'', RouteChange (examplePath ''s1'' ''translations'')),
             (exampleEnv ''s1'', Action GetSubmissionByUuidFailed)]"
  have prev: "previousPath s = Some (examplePath ''s1'' ''transcript'')"
    by (simp add: s_def onSetTranscriptCompleted_previousPath exampleLoaded_facts)
  have "effects (onRouteChange (exampleEnv ''s1'') (examplePath ''s1'' ''translations'') s)
          = effects s"
    by (simp add: routeChange_case1[OF prev] exampleEnv_def examplePathParts_def examplePath_def)
  then have "emitted s (run ?events s) = [TriggerData]"
    by (simp add: emitted_def onGetSubmissionByUuidFailed_def emit_def)
  then have "filter isPayloadFetch (emitted s (run ?events s)) = []"
    by (simp add: isPayloadFetch_def)
  then show ?thesis
    using pristine_flag_lifecycle
      [of "exampleEnv ''s1''" "examplePayload (Some (exampleTransx ''hi'' ''en'')) []"
          exampleLoaded "[]" ?events]
      pristine_flag_lifecycle
      [of "exampleEnv ''s1''" "examplePayload (Some (exampleTransx ''hi'' ''en'')) []"
          s "[]" ?events]
    unfolding s_def by blast
qed

text \<open>
  The view stays open: the transcript is saved, which clears the flag, and the user
  moves on to submission \<open>s2\<close>, which sets it again.
\<close>

theorem pristine_flag_reset_counterexample:
  "\<not> isPristine
       (run [(exampleEnv ''s1'',
                Action (SetTranscriptCompleted
                          (examplePayload (Some (exampleTransx ''hi'' ''en'')) [])))]
          exampleLoaded)
   \<and> isPristine
       (run [(exampleEnv ''s1'',
                Action (SetTranscriptCompleted
                          (examplePayload (Some (exampleTransx ''hi'' ''en'')) []))),
             (exampleEnv ''s2'', RouteChange (examplePath ''s2'' ''transcript''))]
          exampleLoaded)"
proof -
  let ?s = "onSetTranscriptCompleted (exampleEnv ''s1'')
             (examplePayload (Some (exampleTransx ''hi'' ''en'')) []) exampleLoaded"
  have prev: "previousPath ?s = Some (examplePath ''s1'' ''transcript'')"
    by (simp add: onSetTranscriptCompleted_previousPath exampleLoaded_facts)
  have "\<not> isPristine ?s"
    by (simp add: onSetTranscriptCompleted_def setNotPristine_def emit_def Let_def
        split: option.splits)
  moreover have "isPristine (onRouteChange (exampleEnv ''s2'') (examplePath ''s2'' ''transcript'') ?s)"
    by (rule routeChange_case2_fields(4)[OF prev]) (simp_all add: example_defs)
  ultimately show ?thesis by simp
qed

end
